theory Spec2Isabelle
  imports Main "HOL-Library.Word"
begin

section \<open>The noise-removal transcoder (\<^verbatim>\<open>noise_removal.cpp\<close>)\<close>

text \<open>
  The program is one function, \<^verbatim>\<open>main\<close>: it opens an input file, picks the first
  audio stream, opens a decoder for it, initialises a Speex preprocessor, opens an MP3
  encoder and an output file, and then runs one loop: read a packet, decode it, run
  the preprocessor on every decoded frame, encode the frame, write the encoder's
  packets. After the loop it writes the trailer and returns 0.

  Everything else is libavformat, libavcodec and SpeexDSP. Their functions are not
  part of the program, so they are parameters of the model: a record \<open>env\<close> holds, under
  the library's own names, what each call returns. The states hidden behind the
  decoder context, the preprocessor state and the encoder context are the type
  parameters \<open>'ds\<close>, \<open>'ps\<close> and \<open>'es\<close>. The program is modelled as a function from
  \<open>env\<close> to its exit code and the list of calls it makes, in order.
\<close>

subsection \<open>Data\<close>

datatype AVMediaType =
  AVMEDIA_TYPE_VIDEO | AVMEDIA_TYPE_AUDIO | AVMEDIA_TYPE_DATA | AVMEDIA_TYPE_SUBTITLE

datatype AVCodecID = AV_CODEC_ID_MP3 | AV_CODEC_ID_AAC | AV_CODEC_ID_PCM_S16LE | AV_CODEC_ID_OTHER nat

datatype AVSampleFormat =
  AV_SAMPLE_FMT_NONE | AV_SAMPLE_FMT_U8 | AV_SAMPLE_FMT_S16 | AV_SAMPLE_FMT_S32
| AV_SAMPLE_FMT_FLT | AV_SAMPLE_FMT_DBL | AV_SAMPLE_FMT_U8P | AV_SAMPLE_FMT_S16P
| AV_SAMPLE_FMT_S32P | AV_SAMPLE_FMT_FLTP | AV_SAMPLE_FMT_DBLP | AV_SAMPLE_FMT_S64
| AV_SAMPLE_FMT_S64P

text \<open>A channel layout is a bit mask; the mask is modelled as the set of its bits.\<close>

datatype AVChannel =
  AV_CH_FRONT_LEFT | AV_CH_FRONT_RIGHT | AV_CH_FRONT_CENTER | AV_CH_LOW_FREQUENCY
| AV_CH_BACK_LEFT | AV_CH_BACK_RIGHT

definition AV_CH_LAYOUT_MONO :: "AVChannel set" where
  "AV_CH_LAYOUT_MONO = {AV_CH_FRONT_CENTER}"

definition AV_CH_LAYOUT_STEREO :: "AVChannel set" where
  "AV_CH_LAYOUT_STEREO = {AV_CH_FRONT_LEFT, AV_CH_FRONT_RIGHT}"

definition av_get_channel_layout_nb_channels :: "AVChannel set \<Rightarrow> int" where
  "av_get_channel_layout_nb_channels layout = int (card layout)"

datatype AVFormatFlag = AVFMT_NOFILE | AVFMT_GLOBALHEADER

datatype AVCodecFlag = AV_CODEC_FLAG_GLOBAL_HEADER

datatype SpeexRequest = SPEEX_PREPROCESS_SET_DENOISE | SPEEX_PREPROCESS_SET_NOISE_SUPPRESS

text \<open>
  \<^verbatim>\<open>format_context->streams[i]->codecpar\<close>. The program names only \<open>codec_type\<close> and
  \<open>codec_id\<close>; the other fields are those that \<^verbatim>\<open>avcodec_parameters_to_context\<close> copies.
\<close>

record AVCodecParameters =
  codec_type :: AVMediaType
  codec_id :: AVCodecID
  par_sample_rate :: int
  par_channels :: int
  par_channel_layout :: "AVChannel set"
  par_bit_rate :: int
  par_frame_size :: int

record AVCodec =
  avcodec_id :: AVCodecID
  sample_fmts :: "AVSampleFormat list"

record AVCodecContext =
  ctx_codec_id :: AVCodecID
  sample_rate :: int
  channel_layout :: "AVChannel set"
  channels :: int
  sample_fmt :: AVSampleFormat
  bit_rate :: int
  frame_size :: int
  flags :: "AVCodecFlag set"

record AVOutputFormat =
  oformat_name :: string
  oformat_flags :: "AVFormatFlag set"

record AVPacket =
  stream_index :: int
  pkt_pts :: int
  pkt_data :: "8 word list"

text \<open>
  A plane of a frame is the memory behind one \<^verbatim>\<open>frame->data[i]\<close>, read as the program
  reads it through the cast \<^verbatim>\<open>(spx_int16_t*)\<close>: a sequence of 16-bit words.
  \<open>data_0\<close> is \<^verbatim>\<open>data[0]\<close>, which every decoded audio frame has; \<open>data_from_1\<close> are the
  planes \<^verbatim>\<open>data[1]\<close>, \<^verbatim>\<open>data[2]\<close>, ... of a planar frame.
\<close>

type_synonym plane = "16 word list"

record AVFrame =
  data_0 :: plane
  data_from_1 :: "plane list"
  nb_samples :: int
  format :: AVSampleFormat
  frame_channels :: int
  pts :: int

subsection \<open>The calls the program makes\<close>

text \<open>
  One constructor for each call that a claim speaks about, with the arguments the
  program passes and, where the program tests it, the value returned.
  \<open>Cerr\<close> and \<open>Cout\<close> are the writes to \<^verbatim>\<open>std::cerr\<close> and \<^verbatim>\<open>std::cout\<close>.
  The packet of \<open>Avcodec_send_packet\<close> and the frame of \<open>Avcodec_send_frame\<close> are
  pointers: \<open>None\<close> is the null pointer, which asks the codec to drain.
\<close>

datatype call =
    Cerr string
  | Cout string
  | Avcodec_open2_decoder AVCodecContext int
  | Speex_preprocess_state_init int int
  | Speex_preprocess_ctl SpeexRequest int
  | Avformat_alloc_output_context2 string string
  | Avcodec_find_encoder AVCodecID
  | Avcodec_open2_encoder AVCodecContext int
  | Avio_open string int
  | Avformat_write_header int
  | Avcodec_send_packet "AVPacket option" int
  | Speex_preprocess_run AVFrame
  | Avcodec_send_frame "AVFrame option" int
  | Av_interleaved_write_frame AVPacket
  | Av_write_trailer

subsection \<open>The libraries\<close>

text \<open>
  \<open>argv\<close> is the argument vector (\<open>argc\<close> is its length). \<open>streams\<close> are the
  \<open>codecpar\<close> of \<^verbatim>\<open>format_context->streams\<close> after \<^verbatim>\<open>avformat_find_stream_info\<close>.
  \<open>packets\<close> are the packets that the successive calls of \<^verbatim>\<open>av_read_frame\<close> deliver
  before the first call that returns a negative value.
  \<open>avcodec_receive_frame\<close> gives the frames that successive calls deliver with return
  value 0, and the decoder state after the first call that returns something else;
  \<open>avcodec_receive_packet\<close> likewise for the encoder.
  \<open>avcodec_open2\<close> is called once for the decoder and once for the encoder; it may
  change the context it opens (an encoder sets \<open>frame_size\<close>), so it returns the
  context together with the state behind it.
  \<open>speex_preprocess_run\<close> is given a pointer to the first plane of a frame and works
  in place: it is a function from the preprocessor state and the plane to the plane it
  leaves and the new state. How many samples of the plane the real function touches is
  its own affair (it was told a frame length when it was initialised) and is not part
  of the model.
  The allocations whose result the program does not test (\<^verbatim>\<open>avcodec_alloc_context3\<close>,
  \<^verbatim>\<open>av_packet_alloc\<close>, \<^verbatim>\<open>av_frame_alloc\<close>, \<^verbatim>\<open>speex_preprocess_state_init\<close>) succeed.
\<close>

record ('ds, 'ps, 'es) env =
  argv :: "string list"
  avformat_open_input :: "string \<Rightarrow> int"
  avformat_find_stream_info :: int
  streams :: "AVCodecParameters list"
  avcodec_find_decoder :: "AVCodecID \<Rightarrow> AVCodec option"
  avcodec_open2_decoder :: "AVCodecContext \<Rightarrow> AVCodec \<Rightarrow> int \<times> AVCodecContext \<times> 'ds"
  speex_preprocess_state_init :: "int \<Rightarrow> int \<Rightarrow> 'ps"
  speex_preprocess_ctl :: "'ps \<Rightarrow> SpeexRequest \<Rightarrow> int \<Rightarrow> 'ps"
  avformat_alloc_output_context2 :: "string \<Rightarrow> string \<Rightarrow> AVOutputFormat option"
  avcodec_find_encoder :: "AVCodecID \<Rightarrow> AVCodec option"
  avformat_new_stream :: bool
  avcodec_open2_encoder :: "AVCodecContext \<Rightarrow> AVCodec \<Rightarrow> int \<times> AVCodecContext \<times> 'es"
  avio_open :: "string \<Rightarrow> int"
  avformat_write_header :: int
  packets :: "AVPacket list"
  avcodec_send_packet :: "'ds \<Rightarrow> AVPacket option \<Rightarrow> int \<times> 'ds"
  avcodec_receive_frame :: "'ds \<Rightarrow> AVFrame list \<times> 'ds"
  speex_preprocess_run :: "'ps \<Rightarrow> plane \<Rightarrow> plane \<times> 'ps"
  avcodec_send_frame :: "'es \<Rightarrow> AVFrame option \<Rightarrow> int \<times> 'es"
  avcodec_receive_packet :: "'es \<Rightarrow> AVPacket list \<times> 'es"

text \<open>
  Two library functions are written out, as their documentation describes them:
  \<^verbatim>\<open>avcodec_alloc_context3\<close> gives a context with default fields for the given codec,
  and \<^verbatim>\<open>avcodec_parameters_to_context\<close> copies the stream parameters into a context.
\<close>

definition avcodec_alloc_context3 :: "AVCodec \<Rightarrow> AVCodecContext" where
  "avcodec_alloc_context3 codec =
     \<lparr>ctx_codec_id = avcodec_id codec, sample_rate = 0, channel_layout = {}, channels = 0,
      sample_fmt = AV_SAMPLE_FMT_NONE, bit_rate = 0, frame_size = 0, flags = {}\<rparr>"

definition avcodec_parameters_to_context :: "AVCodecContext \<Rightarrow> AVCodecParameters \<Rightarrow> AVCodecContext" where
  "avcodec_parameters_to_context ctx par =
     ctx\<lparr>ctx_codec_id := codec_id par, sample_rate := par_sample_rate par,
         channel_layout := par_channel_layout par, channels := par_channels par,
         bit_rate := par_bit_rate par, frame_size := par_frame_size par\<rparr>"

definition endl :: string where
  "endl = [CHR 0x0A]"

subsection \<open>Opening (lines 18 to 145)\<close>

text \<open>The loop of lines 43 to 49: the index of the first audio stream, or -1.\<close>

fun find_audio_stream :: "AVCodecParameters list \<Rightarrow> nat \<Rightarrow> int" where
  "find_audio_stream [] i = -1"
| "find_audio_stream (s # ss) i =
     (if codec_type s = AVMEDIA_TYPE_AUDIO then int i else find_audio_stream ss (Suc i))"

text \<open>Lines 108 to 113: the encoder context as it is handed to \<^verbatim>\<open>avcodec_open2\<close>.\<close>

definition setup_out_codec_context :: "AVCodec \<Rightarrow> AVCodecContext \<Rightarrow> AVCodecContext" where
  "setup_out_codec_context output_codec codec_context =
     (let c0 = avcodec_alloc_context3 output_codec;
          c1 = c0\<lparr>sample_rate := sample_rate codec_context\<rparr>;
          c2 = c1\<lparr>channel_layout := AV_CH_LAYOUT_STEREO\<rparr>;
          c3 = c2\<lparr>channels := av_get_channel_layout_nb_channels (channel_layout c2)\<rparr>;
          c4 = c3\<lparr>sample_fmt := (case sample_fmts output_codec of
                                    [] \<Rightarrow> AV_SAMPLE_FMT_NONE | f # _ \<Rightarrow> f)\<rparr>
      in c4\<lparr>bit_rate := 192000\<rparr>)"

text \<open>What the program holds when the loop starts.\<close>

record ('ds, 'ps, 'es) opened =
  o_audio_stream_index :: int
  o_codec_context :: AVCodecContext
  o_decoder :: 'ds
  o_preprocess_state :: 'ps
  o_out_codec_context :: AVCodecContext
  o_encoder :: 'es
  open_calls :: "call list"

text \<open>
  Lines 29 to 71. Every failure writes one line to \<^verbatim>\<open>std::cerr\<close> and returns -1:
  \<open>Inl\<close> carries the calls made up to that return.
\<close>

definition open_decoder ::
  "('ds, 'ps, 'es) env \<Rightarrow> string \<Rightarrow> call list + (int \<times> AVCodecContext \<times> 'ds \<times> call list)" where
  "open_decoder E input_filename =
     (if avformat_open_input E input_filename \<noteq> 0
      then Inl [Cerr (''Could not open input file '' @ input_filename @ endl)]
      else if avformat_find_stream_info E < 0
      then Inl [Cerr (''Failed to retrieve input stream information'' @ endl)]
      else let audio_stream_index = find_audio_stream (streams E) 0 in
      if audio_stream_index = -1
      then Inl [Cerr (''Could not find audio stream'' @ endl)]
      else let codec_params = streams E ! nat audio_stream_index in
      case avcodec_find_decoder E (codec_id codec_params) of
        None \<Rightarrow> Inl [Cerr (''Codec not found'' @ endl)]
      | Some codec \<Rightarrow>
          let ctx = avcodec_parameters_to_context (avcodec_alloc_context3 codec) codec_params;
              (rc, codec_context, ds) = avcodec_open2_decoder E ctx codec
          in if rc < 0
             then Inl [Avcodec_open2_decoder ctx rc, Cerr (''Could not open codec'' @ endl)]
             else Inr (audio_stream_index, codec_context, ds, [Avcodec_open2_decoder ctx rc]))"

text \<open>Lines 78 to 82.\<close>

definition init_preprocess :: "('ds, 'ps, 'es) env \<Rightarrow> AVCodecContext \<Rightarrow> 'ps \<times> call list" where
  "init_preprocess E codec_context =
     (let st0 = speex_preprocess_state_init E (frame_size codec_context) (sample_rate codec_context);
          denoise = 1;
          noiseSuppress = -10;
          st1 = speex_preprocess_ctl E st0 SPEEX_PREPROCESS_SET_DENOISE denoise;
          st2 = speex_preprocess_ctl E st1 SPEEX_PREPROCESS_SET_NOISE_SUPPRESS noiseSuppress
      in (st2, [Speex_preprocess_state_init (frame_size codec_context) (sample_rate codec_context),
                Speex_preprocess_ctl SPEEX_PREPROCESS_SET_DENOISE denoise,
                Speex_preprocess_ctl SPEEX_PREPROCESS_SET_NOISE_SUPPRESS noiseSuppress]))"

text \<open>
  Lines 121 to 142, once the encoder is open: the global-header flag, the output
  file, the header. Lines 122 and 128 write the codec tag and the encoder's parameters
  into the output stream, which only the muxer reads; they are left out.
\<close>

definition open_file ::
  "('ds, 'ps, 'es) env \<Rightarrow> string \<Rightarrow> AVOutputFormat \<Rightarrow> AVCodecContext
     \<Rightarrow> call list + (AVCodecContext \<times> call list)" where
  "open_file E output_filename oformat opened_ctx =
     (let out_codec_context =
            (if AVFMT_GLOBALHEADER \<in> oformat_flags oformat
             then opened_ctx\<lparr>flags := insert AV_CODEC_FLAG_GLOBAL_HEADER (flags opened_ctx)\<rparr>
             else opened_ctx);
          rc_io = avio_open E output_filename;
          c_io = (if AVFMT_NOFILE \<notin> oformat_flags oformat
                  then [Avio_open output_filename rc_io] else []);
          rc_hdr = avformat_write_header E
      in if AVFMT_NOFILE \<notin> oformat_flags oformat \<and> rc_io < 0
         then Inl (c_io @ [Cerr (''Could not open output file '' @ output_filename @ endl)])
         else if rc_hdr < 0
         then Inl (c_io @ [Avformat_write_header rc_hdr,
                           Cerr (''Error occurred when opening output file'' @ endl)])
         else Inr (out_codec_context, c_io @ [Avformat_write_header rc_hdr]))"

text \<open>Lines 85 to 142.\<close>

definition open_output ::
  "('ds, 'ps, 'es) env \<Rightarrow> string \<Rightarrow> AVCodecContext
     \<Rightarrow> call list + (AVCodecContext \<times> 'es \<times> call list)" where
  "open_output E output_filename codec_context =
     (let c_alloc = [Avformat_alloc_output_context2 ''mp3'' output_filename];
          c_find = c_alloc @ [Avcodec_find_encoder AV_CODEC_ID_MP3]
      in case avformat_alloc_output_context2 E ''mp3'' output_filename of
           None \<Rightarrow> Inl (c_alloc @ [Cerr (''Could not create output context'' @ endl)])
         | Some oformat \<Rightarrow>
             (case avcodec_find_encoder E AV_CODEC_ID_MP3 of
                None \<Rightarrow> Inl (c_find @ [Cerr (''MP3 encoder not found'' @ endl)])
              | Some output_codec \<Rightarrow>
                  (if \<not> avformat_new_stream E
                   then Inl (c_find @ [Cerr (''Failed to create a new stream for output'' @ endl)])
                   else
                     (let ctx = setup_out_codec_context output_codec codec_context;
                          (rc, opened_ctx, es) = avcodec_open2_encoder E ctx output_codec;
                          c_open = c_find @ [Avcodec_open2_encoder ctx rc]
                      in if rc < 0
                         then Inl (c_open @ [Cerr (''Could not open the encoder'' @ endl)])
                         else (case open_file E output_filename oformat opened_ctx of
                                 Inl cs \<Rightarrow> Inl (c_open @ cs)
                               | Inr (out_codec_context, cs) \<Rightarrow>
                                   Inr (out_codec_context, es, c_open @ cs))))))"

text \<open>Lines 18 to 145 together.\<close>

definition open_all :: "('ds, 'ps, 'es) env \<Rightarrow> call list + ('ds, 'ps, 'es) opened" where
  "open_all E =
     (case argv E of
        prog # input_filename # output_filename # _ \<Rightarrow>
          (case open_decoder E input_filename of
             Inl cs \<Rightarrow> Inl cs
           | Inr (asi, codec_context, ds, c_dec) \<Rightarrow>
               let (ps, c_spx) = init_preprocess E codec_context in
               (case open_output E output_filename codec_context of
                  Inl cs \<Rightarrow> Inl (c_dec @ c_spx @ cs)
                | Inr (out_ctx, es, c_out) \<Rightarrow>
                    Inr \<lparr>o_audio_stream_index = asi, o_codec_context = codec_context, o_decoder = ds,
                         o_preprocess_state = ps, o_out_codec_context = out_ctx, o_encoder = es,
                         open_calls = c_dec @ c_spx @ c_out\<rparr>))
      | _ \<Rightarrow>
          Inl [Cerr (''Usage: '' @ (case argv E of [] \<Rightarrow> [] | prog # _ \<Rightarrow> prog)
                     @ '' <input file> <output file>'' @ endl)])"

subsection \<open>The loop (lines 148 to 166)\<close>

text \<open>
  The body of the inner loop, lines 153 to 161, for each frame the decoder delivers:
  the preprocessor runs in place on \<^verbatim>\<open>frame->data[0]\<close>, the frame goes to the encoder,
  and if the encoder took it, every packet the encoder delivers is written.
\<close>

fun process_frames ::
  "('ds, 'ps, 'es) env \<Rightarrow> 'ps \<Rightarrow> 'es \<Rightarrow> AVFrame list \<Rightarrow> ('ps \<times> 'es) \<times> call list" where
  "process_frames E ps es [] = ((ps, es), [])"
| "process_frames E ps es (frame # frames) =
     (let (d, ps1) = speex_preprocess_run E ps (data_0 frame);
          frame1 = frame\<lparr>data_0 := d\<rparr>;
          (rc, es1) = avcodec_send_frame E es (Some frame1);
          (out_packets, es2) = (if rc = 0 then avcodec_receive_packet E es1 else ([], es1));
          (st, cs) = process_frames E ps1 es2 frames
      in (st, [Speex_preprocess_run frame, Avcodec_send_frame (Some frame1) rc]
              @ map Av_interleaved_write_frame out_packets @ cs))"

text \<open>The outer loop, over the packets that \<^verbatim>\<open>av_read_frame\<close> delivers.\<close>

fun read_loop ::
  "('ds, 'ps, 'es) env \<Rightarrow> int \<Rightarrow> 'ds \<Rightarrow> 'ps \<Rightarrow> 'es \<Rightarrow> AVPacket list \<Rightarrow> ('ds \<times> 'ps \<times> 'es) \<times> call list" where
  "read_loop E asi ds ps es [] = ((ds, ps, es), [])"
| "read_loop E asi ds ps es (packet # rest) =
     (if stream_index packet = asi
      then let (rc, ds1) = avcodec_send_packet E ds (Some packet) in
           if rc = 0
           then let (frames, ds2) = avcodec_receive_frame E ds1;
                    ((ps1, es1), cs) = process_frames E ps es frames;
                    (st, cs') = read_loop E asi ds2 ps1 es1 rest
                in (st, Avcodec_send_packet (Some packet) rc # cs @ cs')
           else let (st, cs') = read_loop E asi ds1 ps es rest
                in (st, Avcodec_send_packet (Some packet) rc # cs')
      else read_loop E asi ds ps es rest)"

subsection \<open>The program\<close>

text \<open>
  Lines 18 to 181. The calls of lines 172 to 178 free what was allocated and are left
  out. A return of -1 from \<^verbatim>\<open>main\<close> is a nonzero exit status of the process.
\<close>

definition main :: "('ds, 'ps, 'es) env \<Rightarrow> int \<times> call list" where
  "main E =
     (case open_all E of
        Inl cs \<Rightarrow> (-1, cs)
      | Inr op \<Rightarrow>
          let (st, cs) = read_loop E (o_audio_stream_index op) (o_decoder op) (o_preprocess_state op)
                           (o_encoder op) (packets E)
          in (0, open_calls op @ cs @ [Av_write_trailer, Cout (''Processing completed.'' @ endl)]))"

subsection \<open>What a run shows\<close>

text \<open>The frames whose \<^verbatim>\<open>data[0]\<close> was handed to \<^verbatim>\<open>speex_preprocess_run\<close>, in order.\<close>

fun denoised :: "call \<Rightarrow> AVFrame list" where
  "denoised (Speex_preprocess_run f) = [f]"
| "denoised _ = []"

definition denoise_calls :: "call list \<Rightarrow> AVFrame list" where
  "denoise_calls cs = concat (map denoised cs)"

text \<open>The frames handed to \<^verbatim>\<open>avcodec_send_frame\<close>, in order.\<close>

fun sent_frame :: "call \<Rightarrow> AVFrame list" where
  "sent_frame (Avcodec_send_frame (Some f) rc) = [f]"
| "sent_frame _ = []"

definition encoder_calls :: "call list \<Rightarrow> AVFrame list" where
  "encoder_calls cs = concat (map sent_frame cs)"

text \<open>The packets handed to the muxer, and the lines written to \<^verbatim>\<open>std::cerr\<close>.\<close>

fun written :: "call \<Rightarrow> AVPacket list" where
  "written (Av_interleaved_write_frame p) = [p]"
| "written _ = []"

definition written_packets :: "call list \<Rightarrow> AVPacket list" where
  "written_packets cs = concat (map written cs)"

fun cerr_line :: "call \<Rightarrow> string list" where
  "cerr_line (Cerr m) = [m]"
| "cerr_line _ = []"

definition logged :: "call list \<Rightarrow> string list" where
  "logged cs = concat (map cerr_line cs)"

text \<open>The header is written when \<^verbatim>\<open>avformat_write_header\<close> has returned without error.\<close>

fun header_ok :: "call \<Rightarrow> bool" where
  "header_ok (Avformat_write_header rc) = (0 \<le> rc)"
| "header_ok _ = False"

definition header_written :: "call list \<Rightarrow> bool" where
  "header_written cs = list_ex header_ok cs"

text \<open>A call that drains a codec: a null packet to the decoder, a null frame to the encoder.\<close>

fun drain_call :: "call \<Rightarrow> bool" where
  "drain_call (Avcodec_send_packet None rc) = True"
| "drain_call (Avcodec_send_frame None rc) = True"
| "drain_call _ = False"

text \<open>The calls of the opening phase, and the calls of the loop.\<close>

fun open_call :: "call \<Rightarrow> bool" where
  "open_call (Avcodec_open2_decoder c rc) = True"
| "open_call (Speex_preprocess_state_init n r) = True"
| "open_call (Speex_preprocess_ctl q v) = True"
| "open_call (Avformat_alloc_output_context2 f n) = True"
| "open_call (Avcodec_find_encoder i) = True"
| "open_call (Avcodec_open2_encoder c rc) = True"
| "open_call (Avio_open n rc) = True"
| "open_call (Avformat_write_header rc) = True"
| "open_call _ = False"

fun loop_call :: "call \<Rightarrow> bool" where
  "loop_call (Avcodec_send_packet (Some p) rc) = True"
| "loop_call (Speex_preprocess_run f) = True"
| "loop_call (Avcodec_send_frame (Some f) rc) = True"
| "loop_call (Av_interleaved_write_frame p) = True"
| "loop_call _ = False"

text \<open>
  The frames the decoder delivers while the packets are read: the decoder alone, run
  over the packets of the audio stream, without the preprocessor and the encoder.
\<close>

fun decoded_frames :: "('ds, 'ps, 'es) env \<Rightarrow> int \<Rightarrow> 'ds \<Rightarrow> AVPacket list \<Rightarrow> AVFrame list" where
  "decoded_frames E asi ds [] = []"
| "decoded_frames E asi ds (packet # rest) =
     (if stream_index packet = asi
      then let (rc, ds1) = avcodec_send_packet E ds (Some packet) in
           if rc = 0
           then let (frames, ds2) = avcodec_receive_frame E ds1
                in frames @ decoded_frames E asi ds2 rest
           else decoded_frames E asi ds1 rest
      else decoded_frames E asi ds rest)"

definition decoder_output :: "('ds, 'ps, 'es) env \<Rightarrow> ('ds, 'ps, 'es) opened \<Rightarrow> AVFrame list" where
  "decoder_output E op = decoded_frames E (o_audio_stream_index op) (o_decoder op) (packets E)"

text \<open>
  The audio that the input stream holds, as the decoder interface of the specification
  has it (section 6, \<open>decode\<close> and \<open>flush\<close>): the frames delivered while the packets
  are sent, followed by the frames that the decoder still holds and delivers only when
  it is drained with a null packet.
\<close>

fun decoder_state_after :: "('ds, 'ps, 'es) env \<Rightarrow> int \<Rightarrow> 'ds \<Rightarrow> AVPacket list \<Rightarrow> 'ds" where
  "decoder_state_after E asi ds [] = ds"
| "decoder_state_after E asi ds (packet # rest) =
     (if stream_index packet = asi
      then let (rc, ds1) = avcodec_send_packet E ds (Some packet) in
           if rc = 0
           then let (frames, ds2) = avcodec_receive_frame E ds1
                in decoder_state_after E asi ds2 rest
           else decoder_state_after E asi ds1 rest
      else decoder_state_after E asi ds rest)"

definition drain_frames :: "('ds, 'ps, 'es) env \<Rightarrow> 'ds \<Rightarrow> AVFrame list" where
  "drain_frames E ds =
     (let (rc, ds1) = avcodec_send_packet E ds None
      in if rc = 0 then fst (avcodec_receive_frame E ds1) else [])"

definition held_back :: "('ds, 'ps, 'es) env \<Rightarrow> ('ds, 'ps, 'es) opened \<Rightarrow> AVFrame list" where
  "held_back E op =
     drain_frames E (decoder_state_after E (o_audio_stream_index op) (o_decoder op) (packets E))"

definition stream_audio :: "('ds, 'ps, 'es) env \<Rightarrow> ('ds, 'ps, 'es) opened \<Rightarrow> AVFrame list" where
  "stream_audio E op = decoder_output E op @ held_back E op"

text \<open>
  The preprocessor alone, run over a list of frames: each frame with its first plane
  replaced by what \<^verbatim>\<open>speex_preprocess_run\<close> leaves there, the state passed along.
\<close>

fun denoise_all :: "('ds, 'ps, 'es) env \<Rightarrow> 'ps \<Rightarrow> AVFrame list \<Rightarrow> AVFrame list \<times> 'ps" where
  "denoise_all E ps [] = ([], ps)"
| "denoise_all E ps (f # fs) =
     (let (d, ps1) = speex_preprocess_run E ps (data_0 f);
          (gs, ps2) = denoise_all E ps1 fs
      in (f\<lparr>data_0 := d\<rparr> # gs, ps2))"

definition samples_per_channel :: "AVFrame list \<Rightarrow> int" where
  "samples_per_channel fs = sum_list (map nb_samples fs)"

text \<open>
  The preprocessor seen on the first planes alone: what it leaves in each plane it is
  given, the state passed along.
\<close>

fun denoised_planes :: "('ds, 'ps, 'es) env \<Rightarrow> 'ps \<Rightarrow> plane list \<Rightarrow> plane list" where
  "denoised_planes E ps [] = []"
| "denoised_planes E ps (d # ds) =
     (let (d', ps1) = speex_preprocess_run E ps d in d' # denoised_planes E ps1 ds)"

text \<open>
  The frame length the preprocessor is configured with (the first argument of
  \<^verbatim>\<open>speex_preprocess_state_init\<close>) and the frame length of the opened encoder.
\<close>

fun init_length :: "call \<Rightarrow> int list" where
  "init_length (Speex_preprocess_state_init n r) = [n]"
| "init_length _ = []"

definition denoise_frame_length :: "call list \<Rightarrow> int list" where
  "denoise_frame_length cs = concat (map init_length cs)"

definition encoder_frame_length :: "('ds, 'ps, 'es) env \<Rightarrow> int option" where
  "encoder_frame_length E =
     (case open_all E of Inl cs \<Rightarrow> None | Inr op \<Rightarrow> Some (frame_size (o_out_codec_context op)))"

text \<open>
  The parameters of the selected audio stream, and the decoder context of that stream
  as the program holds it after \<^verbatim>\<open>avcodec_open2\<close>.
\<close>

definition audio_stream_parameters :: "('ds, 'ps, 'es) env \<Rightarrow> AVCodecParameters" where
  "audio_stream_parameters E = streams E ! nat (find_audio_stream (streams E) 0)"

definition input_codec_context :: "('ds, 'ps, 'es) env \<Rightarrow> AVCodecContext option" where
  "input_codec_context E =
     (case argv E of
        prog # input_filename # output_filename # _ \<Rightarrow>
          (case open_decoder E input_filename of
             Inl cs \<Rightarrow> None
           | Inr (asi, codec_context, ds, cs) \<Rightarrow> Some codec_context)
      | _ \<Rightarrow> None)"

text \<open>The calls of the loop in a run that reached it.\<close>

definition loop_calls :: "('ds, 'ps, 'es) env \<Rightarrow> ('ds, 'ps, 'es) opened \<Rightarrow> call list" where
  "loop_calls E op =
     snd (read_loop E (o_audio_stream_index op) (o_decoder op) (o_preprocess_state op)
            (o_encoder op) (packets E))"

text \<open>
  A run that failed while opening: it ends with a line on \<^verbatim>\<open>std::cerr\<close>, before that
  line there are only calls of the opening phase, and the header was not written.
\<close>

definition open_failed :: "call list \<Rightarrow> bool" where
  "open_failed cs =
     (cs \<noteq> [] \<and> cerr_line (last cs) \<noteq> [] \<and> list_all open_call (butlast cs)
      \<and> \<not> header_written (butlast cs))"

text \<open>
  What the program passes to the calls of the opening phase, and what it gets back.
  \<open>input_filename\<close> and \<open>output_filename\<close> are \<^verbatim>\<open>argv[1]\<close> and \<^verbatim>\<open>argv[2]\<close>.
  \<open>decoder_open\<close> is the result of the program's call of \<^verbatim>\<open>avcodec_open2\<close> for the
  decoder (line 68), when a decoder is found for the audio stream; \<open>encoder_open\<close> is
  the result of its call for the encoder (line 116), when the MP3 encoder is found.
\<close>

definition input_filename :: "('ds, 'ps, 'es) env \<Rightarrow> string" where
  "input_filename E = (case argv E of prog # i # rest \<Rightarrow> i | _ \<Rightarrow> [])"

definition output_filename :: "('ds, 'ps, 'es) env \<Rightarrow> string" where
  "output_filename E = (case argv E of prog # i # outp # rest \<Rightarrow> outp | _ \<Rightarrow> [])"

definition decoder_open :: "('ds, 'ps, 'es) env \<Rightarrow> (int \<times> AVCodecContext \<times> 'ds) option" where
  "decoder_open E =
     (case avcodec_find_decoder E (codec_id (audio_stream_parameters E)) of
        None \<Rightarrow> None
      | Some codec \<Rightarrow>
          Some (avcodec_open2_decoder E
                  (avcodec_parameters_to_context (avcodec_alloc_context3 codec)
                     (audio_stream_parameters E)) codec))"

definition encoder_open :: "('ds, 'ps, 'es) env \<Rightarrow> (int \<times> AVCodecContext \<times> 'es) option" where
  "encoder_open E =
     (case decoder_open E of
        None \<Rightarrow> None
      | Some (rc, codec_context, ds) \<Rightarrow>
          (case avcodec_find_encoder E AV_CODEC_ID_MP3 of
             None \<Rightarrow> None
           | Some output_codec \<Rightarrow>
               Some (avcodec_open2_encoder E
                       (setup_out_codec_context output_codec codec_context) output_codec)))"

text \<open>
  Every call of the opening phase succeeds, each taken with the arguments the program
  passes: three arguments or more, the input opens, stream information is found,
  there is an audio stream, its decoder is found and opens, the output context and
  the output stream are created, the MP3 encoder is found and opens, the output file
  opens (unless the format needs no file), and the header is written.
\<close>

definition all_opening_calls_succeed :: "('ds, 'ps, 'es) env \<Rightarrow> bool" where
  "all_opening_calls_succeed E =
     (3 \<le> length (argv E)
      \<and> avformat_open_input E (input_filename E) = 0
      \<and> 0 \<le> avformat_find_stream_info E
      \<and> find_audio_stream (streams E) 0 \<noteq> -1
      \<and> (case decoder_open E of None \<Rightarrow> False | Some (rc, codec_context, ds) \<Rightarrow> 0 \<le> rc)
      \<and> (case avformat_alloc_output_context2 E ''mp3'' (output_filename E) of
            None \<Rightarrow> False
          | Some oformat \<Rightarrow>
              AVFMT_NOFILE \<in> oformat_flags oformat \<or> 0 \<le> avio_open E (output_filename E))
      \<and> avformat_new_stream E
      \<and> (case encoder_open E of None \<Rightarrow> False | Some (rc, opened_ctx, es) \<Rightarrow> 0 \<le> rc)
      \<and> 0 \<le> avformat_write_header E)"

text \<open>The output file is open when \<^verbatim>\<open>avio_open\<close> has returned without error.\<close>

fun file_ok :: "call \<Rightarrow> bool" where
  "file_ok (Avio_open n rc) = (0 \<le> rc)"
| "file_ok _ = False"

definition output_file_opened :: "call list \<Rightarrow> bool" where
  "output_file_opened cs = list_ex file_ok cs"

subsection \<open>The properties the specification asks for\<close>

text \<open>
  Chunk-length invariant: every chunk handed to the preprocessor has \<open>n1\<close> samples per
  channel and every chunk handed to the encoder has \<open>n2\<close>.
\<close>

definition chunk_length_invariant :: "int \<Rightarrow> int \<Rightarrow> call list \<Rightarrow> bool" where
  "chunk_length_invariant n1 n2 cs =
     (list_all (\<lambda>f. nb_samples f = n1) (denoise_calls cs)
      \<and> list_all (\<lambda>f. nb_samples f = n2) (encoder_calls cs))"

text \<open>
  Draining: the decoder is asked to drain, after that the encoder is asked to drain,
  and after that the trailer is written.
\<close>

fun decoder_drain :: "call \<Rightarrow> bool" where
  "decoder_drain (Avcodec_send_packet None rc) = True"
| "decoder_drain _ = False"

fun encoder_drain :: "call \<Rightarrow> bool" where
  "encoder_drain (Avcodec_send_frame None rc) = True"
| "encoder_drain _ = False"

definition drains :: "call list \<Rightarrow> bool" where
  "drains cs =
     (case dropWhile (\<lambda>c. \<not> decoder_drain c) cs of
        [] \<Rightarrow> False
      | _ # after_decoder \<Rightarrow>
          (case dropWhile (\<lambda>c. \<not> encoder_drain c) after_decoder of
             [] \<Rightarrow> False
           | _ # after_encoder \<Rightarrow> Av_write_trailer \<in> set after_encoder))"

text \<open>
  The sample formats and the channel conversions that the specification's Format
  Adapter supports (section 4.2): integers of 8, 16 and 32 bits, floats of 32 and 64
  bits, planar or interleaved; equal channel counts, mono to stereo, stereo to mono.
\<close>

fun spec_supported_format :: "AVSampleFormat \<Rightarrow> bool" where
  "spec_supported_format AV_SAMPLE_FMT_NONE = False"
| "spec_supported_format AV_SAMPLE_FMT_S64 = False"
| "spec_supported_format AV_SAMPLE_FMT_S64P = False"
| "spec_supported_format _ = True"

definition spec_supported_channels :: "int \<Rightarrow> int \<Rightarrow> bool" where
  "spec_supported_channels c_in c_out =
     (c_in = c_out \<or> (c_in = 1 \<and> c_out = 2) \<or> (c_in = 2 \<and> c_out = 1))"

text \<open>
  A 32-bit float sample as it lies in a plane that is read in 16-bit words, low word
  first. In IEEE 754 single precision 2.0 has sign 0, exponent 128 and fraction 0, which
  is the bit pattern \<open>0x40000000\<close>.
\<close>

definition float32_words :: "32 word \<Rightarrow> plane" where
  "float32_words w = [ucast w, ucast (drop_bit 16 w)]"

definition float32_two :: "32 word" where
  "float32_two = push_bit 23 128"

subsection \<open>Concrete libraries\<close>

text \<open>
  A codec that follows a script: the state is the list of what is still to be received
  and, for each coming call of \<^verbatim>\<open>send\<close>, its return value and what it makes available.
  A preprocessor that halves every sample.
\<close>

type_synonym 'a script = "'a list \<times> (int \<times> 'a list) list"

definition script_send :: "'a script \<Rightarrow> 'b option \<Rightarrow> int \<times> 'a script" where
  "script_send st x =
     (case snd st of
        [] \<Rightarrow> (-1, ([], []))
      | (rc, ys) # rest \<Rightarrow> (rc, (if rc = 0 then ys else [], rest)))"

definition script_receive :: "'a script \<Rightarrow> 'a list \<times> 'a script" where
  "script_receive st = (fst st, ([], snd st))"

definition attenuate :: "unit \<Rightarrow> plane \<Rightarrow> plane \<times> unit" where
  "attenuate st d = (map (drop_bit 1) d, ())"

definition demo_env ::
  "string list \<Rightarrow> AVCodecParameters list \<Rightarrow> int \<Rightarrow> int \<Rightarrow> (int \<times> AVFrame list) list
     \<Rightarrow> (int \<times> AVPacket list) list \<Rightarrow> AVPacket list
     \<Rightarrow> (AVFrame script, unit, AVPacket script) env" where
  "demo_env args strs enc_frame_size rc_hdr dec_script enc_script pkts =
     \<lparr>argv = args,
      avformat_open_input = (\<lambda>name. 0),
      avformat_find_stream_info = 0,
      streams = strs,
      avcodec_find_decoder = (\<lambda>i. Some \<lparr>avcodec_id = i, sample_fmts = [AV_SAMPLE_FMT_S16]\<rparr>),
      avcodec_open2_decoder = (\<lambda>ctx codec. (0, ctx, ([], dec_script))),
      speex_preprocess_state_init = (\<lambda>n r. ()),
      speex_preprocess_ctl = (\<lambda>st req v. st),
      avformat_alloc_output_context2 =
        (\<lambda>fmt name. Some \<lparr>oformat_name = fmt, oformat_flags = {}\<rparr>),
      avcodec_find_encoder =
        (\<lambda>i. Some \<lparr>avcodec_id = i, sample_fmts = [AV_SAMPLE_FMT_S16P, AV_SAMPLE_FMT_FLTP]\<rparr>),
      avformat_new_stream = True,
      avcodec_open2_encoder =
        (\<lambda>ctx codec. (0, ctx\<lparr>frame_size := enc_frame_size\<rparr>, ([], enc_script))),
      avio_open = (\<lambda>name. 0),
      avformat_write_header = rc_hdr,
      packets = pkts,
      avcodec_send_packet = script_send,
      avcodec_receive_frame = script_receive,
      speex_preprocess_run = attenuate,
      avcodec_send_frame = script_send,
      avcodec_receive_packet = script_receive\<rparr>"

definition mono_stream :: AVCodecParameters where
  "mono_stream =
     \<lparr>codec_type = AVMEDIA_TYPE_AUDIO, codec_id = AV_CODEC_ID_PCM_S16LE, par_sample_rate = 8000,
      par_channels = 1, par_channel_layout = AV_CH_LAYOUT_MONO, par_bit_rate = 128000,
      par_frame_size = 4\<rparr>"

definition video_stream :: AVCodecParameters where
  "video_stream = mono_stream\<lparr>codec_type := AVMEDIA_TYPE_VIDEO, codec_id := AV_CODEC_ID_OTHER 27\<rparr>"

definition mono_frame :: "plane \<Rightarrow> int \<Rightarrow> AVFrame" where
  "mono_frame d t =
     \<lparr>data_0 = d, data_from_1 = [], nb_samples = int (length d), format = AV_SAMPLE_FMT_S16,
      frame_channels = 1, pts = t\<rparr>"

definition pkt :: "int \<Rightarrow> int \<Rightarrow> AVPacket" where
  "pkt i t = \<lparr>stream_index = i, pkt_pts = t, pkt_data = []\<rparr>"

definition demo_args :: "string list" where
  "demo_args = [''noise_removal'', ''in.wav'', ''out.mp3'']"

text \<open>
  A video stream and an audio stream whose decoder announces frames of 4 samples and
  delivers one frame of 4 and a last frame of 3; the encoder asks for frames of 8.
  The packet in the middle belongs to the video stream.
\<close>

definition short_last_frame_env :: "(AVFrame script, unit, AVPacket script) env" where
  "short_last_frame_env =
     demo_env demo_args [video_stream, mono_stream] 8 0
       [(0, [mono_frame [8, 6, 4, 2] 0]), (0, [mono_frame [2, 4, 6] 4])]
       [(0, []), (0, [pkt 0 0])]
       [pkt 1 0, pkt 0 0, pkt 1 4]"

text \<open>
  A decoder that is one frame late: the frame of the first packet comes out when the
  second packet is sent, and the frame of the second packet only when the decoder is
  drained.
\<close>

definition delay_env :: "(AVFrame script, unit, AVPacket script) env" where
  "delay_env =
     demo_env demo_args [mono_stream] 4 0
       [(0, []), (0, [mono_frame [8, 6, 4, 2] 0]), (0, [mono_frame [2, 4, 6, 8] 4])]
       [(0, [pkt 0 0])]
       [pkt 0 0, pkt 0 4]"

text \<open>One frame of 32-bit float samples that holds the single sample 2.0.\<close>

definition float_env :: "(AVFrame script, unit, AVPacket script) env" where
  "float_env =
     demo_env demo_args [mono_stream] 8 0
       [(0, [\<lparr>data_0 = float32_words float32_two, data_from_1 = [], nb_samples = 1,
               format = AV_SAMPLE_FMT_FLT, frame_channels = 1, pts = 0\<rparr>])]
       [(0, [pkt 0 0])]
       [pkt 0 0]"

text \<open>One interleaved frame of six channels with 64-bit integer samples.\<close>

definition six_channel_env :: "(AVFrame script, unit, AVPacket script) env" where
  "six_channel_env =
     demo_env demo_args [mono_stream\<lparr>par_channels := 6\<rparr>] 8 0
       [(0, [\<lparr>data_0 = replicate 24 1, data_from_1 = [], nb_samples = 1,
               format = AV_SAMPLE_FMT_S64, frame_channels = 6, pts = 0\<rparr>])]
       [(0, [pkt 0 0])]
       [pkt 0 0]"

text \<open>
  Three audio packets: the decoder refuses the first, the encoder refuses the frame of
  the second, the third goes through.
\<close>

definition failing_env :: "(AVFrame script, unit, AVPacket script) env" where
  "failing_env =
     demo_env demo_args [mono_stream] 8 0
       [(-22, []), (0, [mono_frame [2, 4] 1]), (0, [mono_frame [6, 8] 2])]
       [(-22, [pkt 0 1]), (0, [pkt 0 2])]
       [pkt 0 0, pkt 0 1, pkt 0 2]"

text \<open>An input without audio stream, and an output whose header cannot be written.\<close>

definition no_audio_env :: "(AVFrame script, unit, AVPacket script) env" where
  "no_audio_env = demo_env demo_args [video_stream] 8 0 [] [] [pkt 0 0]"

definition header_fails_env :: "(AVFrame script, unit, AVPacket script) env" where
  "header_fails_env = demo_env demo_args [mono_stream] 8 (-5) [] [] [pkt 0 0]"

text \<open>
  Libraries in which everything succeeds, and, for each step of the opening phase,
  libraries in which that step fails and every step before it succeeds.
\<close>

definition good_env :: "(AVFrame script, unit, AVPacket script) env" where
  "good_env = demo_env demo_args [video_stream, mono_stream] 8 0 [] [] [pkt 0 0]"

datatype opening_step =
    Arguments | Open_input | Stream_info | Audio_stream | Find_decoder | Open_decoder
  | Output_context | Find_encoder | New_stream | Open_encoder | Open_file | Write_header

fun fails_at :: "opening_step \<Rightarrow> (AVFrame script, unit, AVPacket script) env" where
  "fails_at Arguments = good_env\<lparr>argv := [''noise_removal'', ''in.wav'']\<rparr>"
| "fails_at Open_input = good_env\<lparr>avformat_open_input := (\<lambda>name. -2)\<rparr>"
| "fails_at Stream_info = good_env\<lparr>avformat_find_stream_info := -1\<rparr>"
| "fails_at Audio_stream = good_env\<lparr>streams := [video_stream]\<rparr>"
| "fails_at Find_decoder = good_env\<lparr>avcodec_find_decoder := (\<lambda>i. None)\<rparr>"
| "fails_at Open_decoder =
     good_env\<lparr>avcodec_open2_decoder := (\<lambda>ctx codec. (-22, ctx, ([], [])))\<rparr>"
| "fails_at Output_context = good_env\<lparr>avformat_alloc_output_context2 := (\<lambda>fmt name. None)\<rparr>"
| "fails_at Find_encoder = good_env\<lparr>avcodec_find_encoder := (\<lambda>i. None)\<rparr>"
| "fails_at New_stream = good_env\<lparr>avformat_new_stream := False\<rparr>"
| "fails_at Open_encoder =
     good_env\<lparr>avcodec_open2_encoder := (\<lambda>ctx codec. (-22, ctx, ([], [])))\<rparr>"
| "fails_at Open_file = good_env\<lparr>avio_open := (\<lambda>name. -13)\<rparr>"
| "fails_at Write_header = good_env\<lparr>avformat_write_header := -5\<rparr>"

text \<open>One planar stereo frame: the left channel in \<^verbatim>\<open>data[0]\<close>, the right in \<^verbatim>\<open>data[1]\<close>.\<close>

definition planar_env :: "(AVFrame script, unit, AVPacket script) env" where
  "planar_env =
     demo_env demo_args [mono_stream\<lparr>par_channels := 2, par_channel_layout := AV_CH_LAYOUT_STEREO\<rparr>]
       8 0
       [(0, [\<lparr>data_0 = [8, 6], data_from_1 = [[10, 12]], nb_samples = 2,
               format = AV_SAMPLE_FMT_S16P, frame_channels = 2, pts = 7\<rparr>])]
       [(0, [pkt 0 7])]
       [pkt 0 7]"

section \<open>Properties\<close>

subsection \<open>Reading the list of calls\<close>

lemma denoise_calls_Nil [simp]: "denoise_calls [] = []"
  by (simp add: denoise_calls_def)

lemma encoder_calls_Nil [simp]: "encoder_calls [] = []"
  by (simp add: encoder_calls_def)

lemma written_packets_Nil [simp]: "written_packets [] = []"
  by (simp add: written_packets_def)

lemma logged_Nil [simp]: "logged [] = []"
  by (simp add: logged_def)

lemma denoise_calls_append [simp]: "denoise_calls (xs @ ys) = denoise_calls xs @ denoise_calls ys"
  by (simp add: denoise_calls_def)

lemma encoder_calls_append [simp]: "encoder_calls (xs @ ys) = encoder_calls xs @ encoder_calls ys"
  by (simp add: encoder_calls_def)

lemma written_packets_append [simp]:
  "written_packets (xs @ ys) = written_packets xs @ written_packets ys"
  by (simp add: written_packets_def)

lemma logged_append [simp]: "logged (xs @ ys) = logged xs @ logged ys"
  by (simp add: logged_def)

lemma header_written_append [simp]:
  "header_written (xs @ ys) = (header_written xs \<or> header_written ys)"
  by (simp add: header_written_def)

lemma denoise_calls_Cons [simp]: "denoise_calls (c # cs) = denoised c @ denoise_calls cs"
  by (simp add: denoise_calls_def)

lemma encoder_calls_Cons [simp]: "encoder_calls (c # cs) = sent_frame c @ encoder_calls cs"
  by (simp add: encoder_calls_def)

lemma written_packets_Cons [simp]: "written_packets (c # cs) = written c @ written_packets cs"
  by (simp add: written_packets_def)

lemma logged_Cons [simp]: "logged (c # cs) = cerr_line c @ logged cs"
  by (simp add: logged_def)

lemma header_written_Cons [simp]: "header_written (c # cs) = (header_ok c \<or> header_written cs)"
  by (simp add: header_written_def)

lemma header_written_Nil [simp]: "header_written [] = False"
  by (simp add: header_written_def)

text \<open>What the calls of the opening phase and of the loop are not.\<close>

lemma open_call_silent:
  "open_call c \<Longrightarrow>
     denoised c = [] \<and> sent_frame c = [] \<and> written c = [] \<and> cerr_line c = []
     \<and> \<not> drain_call c \<and> \<not> loop_call c \<and> c \<noteq> Av_write_trailer"
  by (cases c) simp_all

lemma open_calls_silent:
  "list_all open_call cs \<Longrightarrow>
     denoise_calls cs = [] \<and> encoder_calls cs = [] \<and> written_packets cs = [] \<and> logged cs = []
     \<and> \<not> list_ex drain_call cs \<and> Av_write_trailer \<notin> set cs"
  by (induction cs) (auto dest: open_call_silent)

lemma loop_call_silent:
  "loop_call c \<Longrightarrow> cerr_line c = [] \<and> \<not> drain_call c \<and> \<not> header_ok c \<and> c \<noteq> Av_write_trailer
     \<and> \<not> open_call c"
  by (cases c rule: loop_call.cases) simp_all

lemma loop_calls_silent:
  "list_all loop_call cs \<Longrightarrow>
     logged cs = [] \<and> \<not> list_ex drain_call cs \<and> \<not> header_written cs \<and> Av_write_trailer \<notin> set cs"
  by (induction cs) (auto dest: loop_call_silent)

text \<open>The stages of the opening phase.\<close>

lemma open_failed_iff:
  "open_failed cs =
     (\<exists>pre m. cs = pre @ [Cerr m] \<and> list_all open_call pre \<and> \<not> header_written pre)"
proof
  assume a: "open_failed cs"
  then obtain m where "last cs = Cerr m"
    by (cases "last cs") (auto simp: open_failed_def)
  with a have "cs = butlast cs @ [Cerr m]"
    by (metis append_butlast_last_id open_failed_def)
  with a show "\<exists>pre m. cs = pre @ [Cerr m] \<and> list_all open_call pre \<and> \<not> header_written pre"
    unfolding open_failed_def by blast
next
  assume "\<exists>pre m. cs = pre @ [Cerr m] \<and> list_all open_call pre \<and> \<not> header_written pre"
  then show "open_failed cs"
    by (auto simp: open_failed_def)
qed

lemma open_failedI:
  "list_all open_call pre \<Longrightarrow> \<not> header_written pre \<Longrightarrow> open_failed (pre @ [Cerr m])"
  by (auto simp: open_failed_def)

lemma open_failed_prefix:
  "open_failed cs \<Longrightarrow> list_all open_call pre \<Longrightarrow> \<not> header_written pre \<Longrightarrow> open_failed (pre @ cs)"
  unfolding open_failed_iff
  by (metis append.assoc header_written_append list_all_append)

lemma open_decoder_Inl: "open_decoder E name = Inl cs \<Longrightarrow> open_failed cs"
  using open_failedI [of "[]"] open_failedI [of "[Avcodec_open2_decoder ctx rc]" for ctx rc]
  by (auto simp: open_decoder_def Let_def split: if_splits option.splits prod.splits)

lemma open_decoder_Inr:
  "open_decoder E name = Inr (asi, ctx, ds, cs) \<Longrightarrow>
     list_all open_call cs \<and> \<not> header_written cs \<and> asi = find_audio_stream (streams E) 0"
  by (auto simp: open_decoder_def Let_def split: if_splits option.splits prod.splits)

lemma init_preprocess_calls:
  "list_all open_call (snd (init_preprocess E ctx)) \<and> \<not> header_written (snd (init_preprocess E ctx))"
  by (simp add: init_preprocess_def Let_def)

lemma open_file_Inl: "open_file E name fmt ctx = Inl cs \<Longrightarrow> open_failed cs"
  using open_failedI [of "[]"] open_failedI [of "[Avio_open n rc]" for n rc]
    open_failedI [of "[Avformat_write_header rc]" for rc]
    open_failedI [of "[Avio_open n rc, Avformat_write_header rc']" for n rc rc']
  by (auto simp: open_file_def Let_def split: if_splits)

lemma open_file_Inr:
  "open_file E name fmt ctx = Inr (ctx', cs) \<Longrightarrow> list_all open_call cs \<and> header_written cs"
  by (auto simp: open_file_def Let_def split: if_splits)

lemma open_output_Inl:
  assumes "open_output E name ctx = Inl cs"
  shows "open_failed cs"
proof -
  let ?a = "Avformat_alloc_output_context2 ''mp3'' name"
  let ?f = "Avcodec_find_encoder AV_CODEC_ID_MP3"
  have pre: "open_failed cs'" if "open_file E name fmt c = Inl cs'" for fmt c cs'
    using that by (rule open_file_Inl)
  show ?thesis
    using assms open_failedI [of "[?a]"] open_failedI [of "[?a, ?f]"]
      open_failedI [of "[?a, ?f, Avcodec_open2_encoder c rc]" for c rc]
      open_failed_prefix [of _ "[?a, ?f, Avcodec_open2_encoder c rc]" for c rc]
    by (auto simp: open_output_def Let_def dest!: pre
        split: if_splits option.splits prod.splits sum.splits)
qed

lemma open_output_Inr:
  "open_output E name ctx = Inr (ctx', es, cs) \<Longrightarrow> list_all open_call cs \<and> header_written cs"
  by (auto simp: open_output_def Let_def dest!: open_file_Inr
      split: if_splits option.splits prod.splits sum.splits)

lemma open_all_Inl:
  assumes "open_all E = Inl cs"
  shows "open_failed cs"
proof (cases "argv E")
  case Nil
  then show ?thesis
    using assms open_failedI [of "[]"] by (auto simp: open_all_def)
next
  case (Cons prog r1)
  show ?thesis
  proof (cases r1)
    case Nil
    then show ?thesis
      using assms Cons open_failedI [of "[]"] by (auto simp: open_all_def)
  next
    case c2: (Cons inp r2)
    show ?thesis
    proof (cases r2)
      case Nil
      then show ?thesis
        using assms Cons c2 open_failedI [of "[]"] by (auto simp: open_all_def)
    next
      case c3: (Cons outp r3)
      show ?thesis
      proof (cases "open_decoder E inp")
        case (Inl cs')
        then show ?thesis
          using assms Cons c2 c3 open_decoder_Inl [of E inp cs'] by (simp add: open_all_def)
      next
        case (Inr r)
        obtain asi ctx ds c_dec where r: "r = (asi, ctx, ds, c_dec)"
          by (cases r) auto
        obtain ps c_spx where ip: "init_preprocess E ctx = (ps, c_spx)"
          by (cases "init_preprocess E ctx") auto
        have d: "list_all open_call (c_dec @ c_spx) \<and> \<not> header_written (c_dec @ c_spx)"
          using open_decoder_Inr [of E inp asi ctx ds c_dec] init_preprocess_calls [of E ctx]
            Inr r ip by simp
        obtain cs' where o: "open_output E outp ctx = Inl cs'" and cs: "cs = c_dec @ c_spx @ cs'"
          using assms Cons c2 c3 Inr r ip
          by (auto simp: open_all_def split: sum.splits prod.splits)
        show ?thesis
          using open_failed_prefix [OF open_output_Inl [OF o], of "c_dec @ c_spx"] d cs by simp
      qed
    qed
  qed
qed

lemma open_all_Inr:
  assumes "open_all E = Inr op"
  shows "list_all open_call (open_calls op) \<and> header_written (open_calls op)
         \<and> o_audio_stream_index op = find_audio_stream (streams E) 0"
proof -
  obtain prog inp outp r3 where a: "argv E = prog # inp # outp # r3"
    using assms by (auto simp: open_all_def split: list.splits)
  obtain asi ctx ds c_dec where od: "open_decoder E inp = Inr (asi, ctx, ds, c_dec)"
    using assms a by (auto simp: open_all_def split: sum.splits prod.splits)
  obtain ps c_spx where ip: "init_preprocess E ctx = (ps, c_spx)"
    by (cases "init_preprocess E ctx") auto
  obtain octx es c_out where oo: "open_output E outp ctx = Inr (octx, es, c_out)"
    using assms a od ip by (auto simp: open_all_def split: sum.splits prod.splits)
  have "open_calls op = c_dec @ c_spx @ c_out" and "o_audio_stream_index op = asi"
    using assms a od ip oo by (auto simp: open_all_def)
  then show ?thesis
    using open_decoder_Inr [OF od] init_preprocess_calls [of E ctx] open_output_Inr [OF oo] ip
    by simp
qed

subsection \<open>The loop\<close>

lemma denoise_calls_writes [simp]: "denoise_calls (map Av_interleaved_write_frame ps) = []"
  by (induction ps) simp_all

lemma encoder_calls_writes [simp]: "encoder_calls (map Av_interleaved_write_frame ps) = []"
  by (induction ps) simp_all

lemma process_frames_denoise_calls:
  "denoise_calls (snd (process_frames E ps es fs)) = fs"
  by (induction fs arbitrary: ps es) (simp_all add: Let_def split_beta)

lemma denoise_all_append:
  "denoise_all E ps (xs @ ys) =
     (fst (denoise_all E ps xs) @ fst (denoise_all E (snd (denoise_all E ps xs)) ys),
      snd (denoise_all E (snd (denoise_all E ps xs)) ys))"
  by (induction xs arbitrary: ps) (simp_all add: Let_def split_beta)

lemma process_frames_encoder_calls:
  "encoder_calls (snd (process_frames E ps es fs)) = fst (denoise_all E ps fs)
   \<and> fst (fst (process_frames E ps es fs)) = snd (denoise_all E ps fs)"
  by (induction fs arbitrary: ps es) (simp_all add: Let_def split_beta)

lemma read_loop_denoise_calls:
  "denoise_calls (snd (read_loop E asi ds ps es pkts)) = decoded_frames E asi ds pkts"
  by (induction pkts arbitrary: ds ps es)
     (simp_all add: process_frames_denoise_calls Let_def split_beta)

lemma read_loop_encoder_calls:
  "encoder_calls (snd (read_loop E asi ds ps es pkts)) =
     fst (denoise_all E ps (decoded_frames E asi ds pkts))"
  by (induction pkts arbitrary: ds ps es)
     (simp_all add: process_frames_encoder_calls denoise_all_append Let_def split_beta)

lemma writes_loop_calls [simp]: "list_all loop_call (map Av_interleaved_write_frame ps)"
  by (induction ps) simp_all

lemma process_frames_loop_calls: "list_all loop_call (snd (process_frames E ps es fs))"
  by (induction fs arbitrary: ps es) (simp_all add: Let_def split_beta)

lemma read_loop_loop_calls: "list_all loop_call (snd (read_loop E asi ds ps es pkts))"
  by (induction pkts arbitrary: ds ps es)
     (simp_all add: process_frames_loop_calls Let_def split_beta)

subsection \<open>The program\<close>

lemma main_Inl: "open_all E = Inl cs \<Longrightarrow> main E = (-1, cs)"
  by (simp add: main_def)

lemma main_Inr:
  "open_all E = Inr op \<Longrightarrow>
     main E = (0, open_calls op @ loop_calls E op
                  @ [Av_write_trailer, Cout (''Processing completed.'' @ endl)])"
  by (simp add: main_def loop_calls_def split_beta)

lemmas demo_defs = demo_env_def script_send_def script_receive_def attenuate_def mono_stream_def
  video_stream_def mono_frame_def pkt_def demo_args_def

lemmas main_defs = main_def open_all_def open_decoder_def init_preprocess_def open_output_def
  open_file_def setup_out_codec_context_def avcodec_alloc_context3_def
  avcodec_parameters_to_context_def av_get_channel_layout_nb_channels_def
  AV_CH_LAYOUT_STEREO_def AV_CH_LAYOUT_MONO_def

subsection \<open>Packets of other streams\<close>

lemma process_frames_packets [simp]:
  "process_frames (E\<lparr>packets := x\<rparr>) ps es fs = process_frames E ps es fs"
  by (induction fs arbitrary: ps es) (simp_all add: Let_def split_beta)

lemma read_loop_packets [simp]:
  "read_loop (E\<lparr>packets := x\<rparr>) asi ds ps es pkts = read_loop E asi ds ps es pkts"
  by (induction pkts arbitrary: ds ps es) (simp_all add: Let_def split_beta)

lemma open_decoder_packets [simp]: "open_decoder (E\<lparr>packets := x\<rparr>) n = open_decoder E n"
  by (simp add: open_decoder_def Let_def split_beta cong: option.case_cong sum.case_cong if_cong)

lemma init_preprocess_packets [simp]: "init_preprocess (E\<lparr>packets := x\<rparr>) c = init_preprocess E c"
  by (simp add: init_preprocess_def Let_def split_beta cong: option.case_cong sum.case_cong if_cong)

lemma open_file_packets [simp]: "open_file (E\<lparr>packets := x\<rparr>) n f c = open_file E n f c"
  by (simp add: open_file_def Let_def split_beta cong: option.case_cong sum.case_cong if_cong)

lemma open_output_packets [simp]: "open_output (E\<lparr>packets := x\<rparr>) n c = open_output E n c"
  by (simp add: open_output_def Let_def split_beta cong: option.case_cong sum.case_cong if_cong)

lemma open_all_packets [simp]: "open_all (E\<lparr>packets := x\<rparr>) = open_all E"
  by (simp add: open_all_def Let_def split_beta cong: list.case_cong sum.case_cong)

lemma read_loop_skip:
  "stream_index p \<noteq> asi \<Longrightarrow>
     read_loop E asi ds ps es (before @ p # after) = read_loop E asi ds ps es (before @ after)"
  by (induction before arbitrary: ds ps es) (simp_all add: Let_def split_beta)

text \<open>
  Claim C6. A packet whose stream index differs from the index of the selected audio
  stream is ignored: wherever it stands among the packets, the program returns the same
  exit code and makes the same calls, in the same order, as on the input without it.
  So the packet contributes nothing to the output, it is no error, and the packets
  after it are processed as if it had not been there.
\<close>

theorem non_audio_packet_ignored:
  assumes "stream_index p \<noteq> find_audio_stream (streams E) 0"
  shows "main (E\<lparr>packets := before @ p # after\<rparr>) = main (E\<lparr>packets := before @ after\<rparr>)"
proof (cases "open_all E")
  case (Inl cs)
  then show ?thesis by (simp add: main_def)
next
  case (Inr op)
  then have "stream_index p \<noteq> o_audio_stream_index op"
    using assms open_all_Inr [of E op] by simp
  then show ?thesis
    using Inr by (simp add: main_def read_loop_skip)
qed

theorem non_audio_packet_ignored_witness:
  "stream_index (pkt 0 0) \<noteq> find_audio_stream (streams short_last_frame_env) 0
   \<and> main (short_last_frame_env\<lparr>packets := [pkt 1 0] @ pkt 0 0 # [pkt 1 4]\<rparr>)
       = main (short_last_frame_env\<lparr>packets := [pkt 1 0] @ [pkt 1 4]\<rparr>)
   \<and> written_packets (snd (main (short_last_frame_env\<lparr>packets := [pkt 1 0] @ pkt 0 0 # [pkt 1 4]\<rparr>)))
       = [pkt 0 0]"
  using non_audio_packet_ignored [of "pkt 0 0" short_last_frame_env "[pkt 1 0]" "[pkt 1 4]"]
  by (simp add: short_last_frame_env_def demo_defs main_defs Let_def)

subsection \<open>From the decoder to the encoder\<close>

lemmas open_defs = open_all_def open_decoder_def init_preprocess_def open_output_def
  open_file_def setup_out_codec_context_def avcodec_alloc_context3_def
  avcodec_parameters_to_context_def av_get_channel_layout_nb_channels_def
  AV_CH_LAYOUT_STEREO_def AV_CH_LAYOUT_MONO_def

lemma main_denoise_calls:
  "open_all E = Inr op \<Longrightarrow> denoise_calls (snd (main E)) = decoder_output E op"
  using open_calls_silent [of "open_calls op"] open_all_Inr [of E op]
  by (simp add: main_Inr loop_calls_def decoder_output_def read_loop_denoise_calls)

lemma main_encoder_calls:
  "open_all E = Inr op \<Longrightarrow>
     encoder_calls (snd (main E)) = fst (denoise_all E (o_preprocess_state op) (decoder_output E op))"
  using open_calls_silent [of "open_calls op"] open_all_Inr [of E op]
  by (simp add: main_Inr loop_calls_def decoder_output_def read_loop_encoder_calls)

lemma denoise_all_rest:
  "map data_from_1 (fst (denoise_all E ps fs)) = map data_from_1 fs
   \<and> map nb_samples (fst (denoise_all E ps fs)) = map nb_samples fs
   \<and> map format (fst (denoise_all E ps fs)) = map format fs
   \<and> map frame_channels (fst (denoise_all E ps fs)) = map frame_channels fs
   \<and> map pts (fst (denoise_all E ps fs)) = map pts fs"
  by (induction fs arbitrary: ps) (simp_all add: Let_def split_beta)

lemma denoise_all_planes:
  "map data_0 (fst (denoise_all E ps fs)) = denoised_planes E ps (map data_0 fs)"
  by (induction fs arbitrary: ps) (simp_all add: Let_def split_beta)

lemma list_all_nb_samples:
  "list_all (\<lambda>f. nb_samples f = n) fs = list_all (\<lambda>k. k = n) (map nb_samples fs)"
  by (induction fs) simp_all

text \<open>
  Claim C1, as the program has it. The program has no stage that cuts the decoded
  samples into chunks of a required length. Every chunk handed to
  \<^verbatim>\<open>speex_preprocess_run\<close> is the first plane of one decoded frame, and the chunk handed
  to \<^verbatim>\<open>avcodec_send_frame\<close> is that same frame: both have the number of samples the
  decoder gave the frame, whatever it is, the last frame included. So the chunks have
  the length \<open>n1\<close> the preprocessor was configured with, and the length \<open>n2\<close> the
  encoder asks for, exactly when every frame that the decoder delivers has these
  lengths.
\<close>

theorem chunks_are_decoded_frames:
  assumes "open_all E = Inr op"
  shows "map nb_samples (denoise_calls (snd (main E))) = map nb_samples (decoder_output E op)
         \<and> map nb_samples (encoder_calls (snd (main E))) = map nb_samples (decoder_output E op)
         \<and> chunk_length_invariant n1 n2 (snd (main E))
             = (list_all (\<lambda>f. nb_samples f = n1) (decoder_output E op)
                \<and> list_all (\<lambda>f. nb_samples f = n2) (decoder_output E op))"
proof -
  have d: "denoise_calls (snd (main E)) = decoder_output E op"
    using assms by (rule main_denoise_calls)
  have e: "map nb_samples (encoder_calls (snd (main E))) = map nb_samples (decoder_output E op)"
    using assms by (simp add: main_encoder_calls denoise_all_rest)
  have "list_all (\<lambda>f. nb_samples f = n2) (encoder_calls (snd (main E)))
          = list_all (\<lambda>f. nb_samples f = n2) (decoder_output E op)"
    using e by (simp add: list_all_nb_samples)
  with d e show ?thesis
    by (simp add: chunk_length_invariant_def)
qed

theorem chunks_are_decoded_frames_witness:
  "open_all short_last_frame_env = Inr (projr (open_all short_last_frame_env))
   \<and> map nb_samples (decoder_output short_last_frame_env (projr (open_all short_last_frame_env)))
        = [4, 3]
   \<and> map nb_samples (denoise_calls (snd (main short_last_frame_env))) = [4, 3]
   \<and> map nb_samples (encoder_calls (snd (main short_last_frame_env))) = [4, 3]
   \<and> \<not> chunk_length_invariant 4 4 (snd (main short_last_frame_env))"
  using chunks_are_decoded_frames
    [of short_last_frame_env "projr (open_all short_last_frame_env)" 4 4]
  by (simp add: short_last_frame_env_def demo_defs open_defs decoder_output_def Let_def)

text \<open>
  Claim C1, as the specification states it, fails. The preprocessor is configured for
  frames of 4 samples and the encoder asks for frames of 8; the decoder delivers a
  frame of 4 samples and a last frame of 3. The program hands chunks of 4 and 3
  samples to the preprocessor and the same chunks to the encoder.
\<close>

theorem chunk_length_counterexample:
  "denoise_frame_length (snd (main short_last_frame_env)) = [4]
   \<and> encoder_frame_length short_last_frame_env = Some 8
   \<and> map nb_samples (denoise_calls (snd (main short_last_frame_env))) = [4, 3]
   \<and> map nb_samples (encoder_calls (snd (main short_last_frame_env))) = [4, 3]
   \<and> \<not> chunk_length_invariant 4 8 (snd (main short_last_frame_env))"
  by (simp add: short_last_frame_env_def demo_defs main_defs Let_def chunk_length_invariant_def
      encoder_frame_length_def denoise_frame_length_def)

text \<open>
  Claim C2, as the program has it. Between the decoder and the encoder nothing is
  dropped, duplicated or padded: the frames handed to the encoder are the frames the
  decoder delivered while the packets were read, one for one, in order, each with its
  number of samples and its timestamp. But the program never drains the decoder, so
  the samples handed to the encoder are the samples of the stream without those of
  the frames that the decoder still holds when the input ends.
\<close>

theorem samples_conserved:
  assumes "open_all E = Inr op"
  shows "samples_per_channel (encoder_calls (snd (main E)))
           = samples_per_channel (decoder_output E op)
         \<and> samples_per_channel (encoder_calls (snd (main E)))
             + samples_per_channel (held_back E op)
           = samples_per_channel (stream_audio E op)
         \<and> map nb_samples (encoder_calls (snd (main E))) = map nb_samples (decoder_output E op)
         \<and> map pts (encoder_calls (snd (main E))) = map pts (decoder_output E op)"
  using assms
  by (simp add: main_encoder_calls samples_per_channel_def denoise_all_rest stream_audio_def)

theorem samples_conserved_witness:
  "open_all delay_env = Inr (projr (open_all delay_env))
   \<and> samples_per_channel (decoder_output delay_env (projr (open_all delay_env))) = 4
   \<and> samples_per_channel (held_back delay_env (projr (open_all delay_env))) = 4
   \<and> samples_per_channel (encoder_calls (snd (main delay_env))) = 4
   \<and> samples_per_channel (stream_audio delay_env (projr (open_all delay_env))) = 8"
  using samples_conserved [of delay_env "projr (open_all delay_env)"]
  by (simp add: delay_env_def demo_defs open_defs decoder_output_def held_back_def
      drain_frames_def Let_def samples_per_channel_def)

text \<open>
  Claim C2, as the specification states it, fails. The stream holds two frames of 4
  samples, 8 samples in all, and the decoder is one frame late. The claim asks for 8
  samples plus padding at the encoder; the program hands it 4: the second frame is
  still in the decoder when the trailer is written.
\<close>

theorem samples_dropped_counterexample:
  "fst (main delay_env) = 0
   \<and> samples_per_channel (stream_audio delay_env (projr (open_all delay_env))) = 8
   \<and> samples_per_channel (encoder_calls (snd (main delay_env))) = 4
   \<and> samples_per_channel (encoder_calls (snd (main delay_env)))
       < samples_per_channel (stream_audio delay_env (projr (open_all delay_env)))"
  by (simp add: delay_env_def demo_defs main_defs decoder_output_def held_back_def
      stream_audio_def drain_frames_def Let_def samples_per_channel_def)

text \<open>
  Claim C4, as the program has it. The program converts nothing. Whatever the sample
  format of a decoded frame, the preprocessor is handed the first plane of the frame as
  the decoder left it, read as 16-bit integers.
\<close>

theorem planes_handed_unconverted:
  assumes "open_all E = Inr op"
  shows "map data_0 (denoise_calls (snd (main E))) = map data_0 (decoder_output E op)
         \<and> map format (denoise_calls (snd (main E))) = map format (decoder_output E op)"
  using assms by (simp add: main_denoise_calls)

theorem planes_handed_unconverted_witness:
  "open_all float_env = Inr (projr (open_all float_env))
   \<and> map data_0 (decoder_output float_env (projr (open_all float_env))) = [[0, 0x4000]]
   \<and> map data_0 (denoise_calls (snd (main float_env))) = [[0, 0x4000]]
   \<and> map format (denoise_calls (snd (main float_env))) = [AV_SAMPLE_FMT_FLT]"
  using planes_handed_unconverted [of float_env "projr (open_all float_env)"]
  by (simp add: float_env_def demo_defs open_defs decoder_output_def Let_def
      float32_words_def float32_two_def)

text \<open>
  Claim C4, as the specification states it, fails. A frame of float samples holds the
  sample 2.0. The claim asks for the 16-bit sample \<open>0x7FFF\<close>; the program hands the
  preprocessor the two halves of the float's bit pattern, \<open>0x0000\<close> and \<open>0x4000\<close>.
\<close>

theorem float_two_counterexample:
  "map format (denoise_calls (snd (main float_env))) = [AV_SAMPLE_FMT_FLT]
   \<and> map data_0 (denoise_calls (snd (main float_env))) = [float32_words float32_two]
   \<and> float32_words float32_two = [0, 0x4000]
   \<and> map data_0 (denoise_calls (snd (main float_env))) \<noteq> [[0x7FFF]]"
  by (simp add: float_env_def demo_defs main_defs Let_def float32_words_def float32_two_def)

text \<open>
  Claim C9. The preprocessor is given the first plane of each decoded frame and nothing
  else: the first planes that reach the encoder are a function of the first planes the
  decoder delivered (and of the preprocessor's state). Every other plane and the sample
  count, the format, the channel count and the timestamp of each frame reach the
  encoder as the decoder delivered them. For a planar frame with several channels,
  only the channel in the first plane is denoised.
\<close>

theorem only_first_plane_denoised:
  assumes "open_all E = Inr op"
  shows "map data_0 (encoder_calls (snd (main E)))
           = denoised_planes E (o_preprocess_state op) (map data_0 (decoder_output E op))
         \<and> map data_from_1 (encoder_calls (snd (main E))) = map data_from_1 (decoder_output E op)
         \<and> map nb_samples (encoder_calls (snd (main E))) = map nb_samples (decoder_output E op)
         \<and> map format (encoder_calls (snd (main E))) = map format (decoder_output E op)
         \<and> map frame_channels (encoder_calls (snd (main E)))
             = map frame_channels (decoder_output E op)
         \<and> map pts (encoder_calls (snd (main E))) = map pts (decoder_output E op)"
  using assms by (simp add: main_encoder_calls denoise_all_planes denoise_all_rest)

theorem only_first_plane_denoised_witness:
  "open_all planar_env = Inr (projr (open_all planar_env))
   \<and> map data_0 (decoder_output planar_env (projr (open_all planar_env))) = [[8, 6]]
   \<and> map data_from_1 (decoder_output planar_env (projr (open_all planar_env))) = [[[10, 12]]]
   \<and> map data_0 (encoder_calls (snd (main planar_env))) = [[4, 3]]
   \<and> map data_from_1 (encoder_calls (snd (main planar_env))) = [[[10, 12]]]
   \<and> map format (encoder_calls (snd (main planar_env))) = [AV_SAMPLE_FMT_S16P]"
  using only_first_plane_denoised [of planar_env "projr (open_all planar_env)"]
  by (simp add: planar_env_def demo_defs open_defs decoder_output_def Let_def)

subsection \<open>End of input, failures, trailer\<close>

lemma open_failed_silent:
  assumes "open_failed cs"
  shows "\<not> header_written cs \<and> written_packets cs = [] \<and> Av_write_trailer \<notin> set cs
         \<and> denoise_calls cs = [] \<and> encoder_calls cs = [] \<and> logged cs \<noteq> []
         \<and> \<not> list_ex drain_call cs"
proof -
  obtain pre m where "cs = pre @ [Cerr m]" "list_all open_call pre" "\<not> header_written pre"
    using assms unfolding open_failed_iff by blast
  then show ?thesis
    using open_calls_silent [of pre] by simp
qed

lemma loop_calls_loop: "list_all loop_call (loop_calls E op)"
  by (simp add: loop_calls_def read_loop_loop_calls)

lemma drains_needs_drain_call: "drains cs \<Longrightarrow> list_ex drain_call cs"
proof -
  assume "drains cs"
  then have "dropWhile (\<lambda>c. \<not> decoder_drain c) cs \<noteq> []"
    by (cases "dropWhile (\<lambda>c. \<not> decoder_drain c) cs") (simp_all add: drains_def)
  then obtain c where c: "c \<in> set cs" "decoder_drain c"
    by auto
  then have "drain_call c"
    by (cases c rule: decoder_drain.cases) simp_all
  with c show ?thesis
    by (auto simp: list_ex_iff)
qed

lemma main_no_drain_call: "\<not> list_ex drain_call (snd (main E))"
proof (cases "open_all E")
  case (Inl cs)
  then show ?thesis
    using open_failed_silent [OF open_all_Inl [OF Inl]] by (simp add: main_Inl)
next
  case (Inr op)
  then show ?thesis
    using open_calls_silent [of "open_calls op"] open_all_Inr [OF Inr]
      loop_calls_silent [OF loop_calls_loop [of E op]]
    by (simp add: main_Inr)
qed

text \<open>
  Claim C3, as the program has it. There is no draining phase. In no run is a null
  packet sent to the decoder or a null frame to the encoder. When \<^verbatim>\<open>av_read_frame\<close>
  reports the end of the input, the calls made for the packets are followed at once by
  \<^verbatim>\<open>av_write_trailer\<close> and the closing message; the chunks handed to the preprocessor
  and to the encoder are as many as the decoder delivered frames, so no padded chunk
  is added at either boundary.
\<close>

theorem no_draining:
  "\<not> list_ex drain_call (snd (main E)) \<and> \<not> drains (snd (main E))
   \<and> (open_all E = Inr op \<longrightarrow>
        snd (main E) = open_calls op @ loop_calls E op
                         @ [Av_write_trailer, Cout (''Processing completed.'' @ endl)]
        \<and> list_all open_call (open_calls op) \<and> list_all loop_call (loop_calls E op)
        \<and> length (denoise_calls (snd (main E))) = length (decoder_output E op)
        \<and> length (encoder_calls (snd (main E))) = length (decoder_output E op))"
proof -
  have a: "\<not> list_ex drain_call (snd (main E))"
    by (rule main_no_drain_call)
  have b: "\<not> drains (snd (main E))"
    using a drains_needs_drain_call by blast
  have c: "snd (main E) = open_calls op @ loop_calls E op
                            @ [Av_write_trailer, Cout (''Processing completed.'' @ endl)]
           \<and> list_all open_call (open_calls op) \<and> list_all loop_call (loop_calls E op)
           \<and> length (denoise_calls (snd (main E))) = length (decoder_output E op)
           \<and> length (encoder_calls (snd (main E))) = length (decoder_output E op)"
    if o: "open_all E = Inr op"
  proof -
    have "length (map nb_samples (encoder_calls (snd (main E))))
            = length (map nb_samples (decoder_output E op))"
      using main_encoder_calls [OF o]
        denoise_all_rest [of E "o_preprocess_state op" "decoder_output E op"]
      by simp
    then have "length (encoder_calls (snd (main E))) = length (decoder_output E op)"
      by simp
    moreover have "length (denoise_calls (snd (main E))) = length (decoder_output E op)"
      using main_denoise_calls [OF o] by simp
    moreover have "snd (main E) = open_calls op @ loop_calls E op
                            @ [Av_write_trailer, Cout (''Processing completed.'' @ endl)]"
      using main_Inr [OF o] by simp
    ultimately show ?thesis
      using open_all_Inr [OF o] loop_calls_loop [of E op] by blast
  qed
  show ?thesis
    using a b c by blast
qed

theorem no_draining_witness:
  "open_all short_last_frame_env = Inr (projr (open_all short_last_frame_env))
   \<and> \<not> drains (snd (main short_last_frame_env))
   \<and> length (decoder_output short_last_frame_env (projr (open_all short_last_frame_env))) = 2
   \<and> length (encoder_calls (snd (main short_last_frame_env))) = 2"
proof -
  have o: "open_all short_last_frame_env = Inr (projr (open_all short_last_frame_env))"
    by (simp add: short_last_frame_env_def demo_defs open_defs Let_def)
  have d: "length (decoder_output short_last_frame_env (projr (open_all short_last_frame_env))) = 2"
    by (simp add: short_last_frame_env_def demo_defs open_defs decoder_output_def Let_def)
  note t = no_draining [of short_last_frame_env "projr (open_all short_last_frame_env)"]
  have n: "\<not> drains (snd (main short_last_frame_env))"
    using t by blast
  have "length (encoder_calls (snd (main short_last_frame_env)))
          = length (decoder_output short_last_frame_env (projr (open_all short_last_frame_env)))"
    using t o by blast
  then show ?thesis
    using o d n by simp
qed

text \<open>
  Claim C3, as the specification states it, fails. The run ends with a frame of 3
  samples where the preprocessor is configured for 4 and the encoder asks for 8. The
  program returns 0 without having drained the decoder or the encoder, and the chunks
  handed to the encoder have 4 and 3 samples: nothing was padded.
\<close>

theorem no_draining_counterexample:
  "fst (main short_last_frame_env) = 0
   \<and> \<not> drains (snd (main short_last_frame_env))
   \<and> map nb_samples (encoder_calls (snd (main short_last_frame_env))) = [4, 3]"
  by (simp add: short_last_frame_env_def demo_defs main_defs Let_def drains_def)

text \<open>
  Claim C7, as the program has it. A failure of \<^verbatim>\<open>avcodec_send_packet\<close> or of
  \<^verbatim>\<open>avcodec_send_frame\<close> is skipped in silence. The calls of the loop after a refused
  packet are the calls for the packets that follow it, and the calls after a refused
  frame are the calls for the frames that follow it. Nothing is written to
  \<^verbatim>\<open>std::cerr\<close> in a run that reached the loop, and such a run returns 0: there is no
  failure in the loop that ends the run.
\<close>

theorem failures_skipped_silently:
  "(open_all E = Inr op \<longrightarrow> fst (main E) = 0 \<and> logged (snd (main E)) = [])
   \<and> (stream_index p = asi \<and> fst (avcodec_send_packet E ds (Some p)) \<noteq> 0 \<longrightarrow>
        snd (read_loop E asi ds ps es (p # rest))
          = Avcodec_send_packet (Some p) (fst (avcodec_send_packet E ds (Some p)))
            # snd (read_loop E asi (snd (avcodec_send_packet E ds (Some p))) ps es rest))
   \<and> (fst (avcodec_send_frame E es
              (Some (f\<lparr>data_0 := fst (speex_preprocess_run E ps (data_0 f))\<rparr>))) \<noteq> 0 \<longrightarrow>
        snd (process_frames E ps es (f # fs))
          = [Speex_preprocess_run f,
             Avcodec_send_frame (Some (f\<lparr>data_0 := fst (speex_preprocess_run E ps (data_0 f))\<rparr>))
               (fst (avcodec_send_frame E es
                  (Some (f\<lparr>data_0 := fst (speex_preprocess_run E ps (data_0 f))\<rparr>))))]
            @ snd (process_frames E (snd (speex_preprocess_run E ps (data_0 f)))
                     (snd (avcodec_send_frame E es
                        (Some (f\<lparr>data_0 := fst (speex_preprocess_run E ps (data_0 f))\<rparr>)))) fs))"
  using open_calls_silent [of "open_calls op"] open_all_Inr [of E op]
    loop_calls_silent [OF loop_calls_loop [of E op]]
  by (auto simp: main_Inr Let_def split_beta)

theorem failures_skipped_silently_witness:
  "open_all failing_env = Inr (projr (open_all failing_env))
   \<and> fst (main failing_env) = 0 \<and> logged (snd (main failing_env)) = []
   \<and> fst (avcodec_send_packet failing_env (o_decoder (projr (open_all failing_env)))
             (Some (pkt 0 0))) = -22
   \<and> snd (read_loop failing_env 0 (o_decoder (projr (open_all failing_env))) ()
            (o_encoder (projr (open_all failing_env))) [pkt 0 0])
       = [Avcodec_send_packet (Some (pkt 0 0)) (-22)]
   \<and> fst (avcodec_send_frame failing_env (o_encoder (projr (open_all failing_env)))
             (Some ((mono_frame [2, 4] 1)\<lparr>data_0 := [1, 2]\<rparr>))) = -22
   \<and> snd (process_frames failing_env () (o_encoder (projr (open_all failing_env)))
            [mono_frame [2, 4] 1])
       = [Speex_preprocess_run (mono_frame [2, 4] 1),
          Avcodec_send_frame (Some ((mono_frame [2, 4] 1)\<lparr>data_0 := [1, 2]\<rparr>)) (-22)]"
  using failures_skipped_silently [of failing_env "projr (open_all failing_env)" "pkt 0 0" 0
      "o_decoder (projr (open_all failing_env))" "()" "o_encoder (projr (open_all failing_env))"
      "[]" "mono_frame [2, 4] 1" "[]"]
  by (simp add: failing_env_def demo_defs open_defs Let_def)

text \<open>
  Claim C7, as the specification states it, fails. The decoder refuses the first
  packet and the encoder refuses the frame of the second. The program goes on, writes
  the packet of the third and returns 0, but it has written nothing to \<^verbatim>\<open>std::cerr\<close>:
  the failures are not logged.
\<close>

theorem failures_not_logged_counterexample:
  "Avcodec_send_packet (Some (pkt 0 0)) (-22) \<in> set (snd (main failing_env))
   \<and> Avcodec_send_frame (Some ((mono_frame [2, 4] 1)\<lparr>data_0 := [1, 2]\<rparr>)) (-22)
       \<in> set (snd (main failing_env))
   \<and> logged (snd (main failing_env)) = []
   \<and> written_packets (snd (main failing_env)) = [pkt 0 2]
   \<and> fst (main failing_env) = 0"
  by (simp add: failing_env_def demo_defs main_defs Let_def)

lemma output_file_opened_Nil [simp]: "output_file_opened [] = False"
  by (simp add: output_file_opened_def)

lemma output_file_opened_Cons [simp]:
  "output_file_opened (c # cs) = (file_ok c \<or> output_file_opened cs)"
  by (simp add: output_file_opened_def)

lemma output_file_opened_append [simp]:
  "output_file_opened (xs @ ys) = (output_file_opened xs \<or> output_file_opened ys)"
  by (simp add: output_file_opened_def)

lemma open_decoder_no_file:
  "\<not> output_file_opened
       (case open_decoder E n of Inl cs \<Rightarrow> cs | Inr (asi, cc, ds, cs) \<Rightarrow> cs)"
  by (auto simp: open_decoder_def Let_def split: if_splits option.splits prod.splits)

lemma init_preprocess_no_file: "\<not> output_file_opened (snd (init_preprocess E ctx))"
  by (simp add: init_preprocess_def Let_def)

lemma open_file_Inl_file:
  "open_file E n f c = Inl cs \<Longrightarrow> output_file_opened cs \<Longrightarrow>
     avformat_write_header E < 0 \<and> Avformat_write_header (avformat_write_header E) \<in> set cs"
  by (auto simp: open_file_def Let_def split: if_splits)

lemma open_output_Inl_file:
  "open_output E n cc = Inl cs \<Longrightarrow> output_file_opened cs \<Longrightarrow>
     avformat_write_header E < 0 \<and> Avformat_write_header (avformat_write_header E) \<in> set cs"
  by (auto simp: open_output_def Let_def dest: open_file_Inl_file
      split: if_splits option.splits prod.splits sum.splits)

lemma open_all_Inl_file:
  assumes "open_all E = Inl cs" and "output_file_opened cs"
  shows "avformat_write_header E < 0 \<and> Avformat_write_header (avformat_write_header E) \<in> set cs"
proof -
  obtain prog inp outp r3 where a: "argv E = prog # inp # outp # r3"
    using assms by (auto simp: open_all_def split: list.splits)
  show ?thesis
  proof (cases "open_decoder E inp")
    case (Inl cs')
    then show ?thesis
      using assms a open_decoder_no_file [of E inp] by (simp add: open_all_def)
  next
    case (Inr r)
    obtain asi cc ds c_dec where r: "r = (asi, cc, ds, c_dec)"
      by (cases r) auto
    obtain ps c_spx where ip: "init_preprocess E cc = (ps, c_spx)"
      by (cases "init_preprocess E cc") auto
    have n: "\<not> output_file_opened c_dec" "\<not> output_file_opened c_spx"
      using open_decoder_no_file [of E inp] init_preprocess_no_file [of E cc] Inr r ip
      by simp_all
    obtain cs' where o: "open_output E outp cc = Inl cs'" and cs: "cs = c_dec @ c_spx @ cs'"
      using assms a Inr r ip by (auto simp: open_all_def split: sum.splits prod.splits)
    show ?thesis
      using open_output_Inl_file [OF o] assms(2) n cs by simp
  qed
qed

text \<open>
  Claim C8, as the program has it. The trailer is written in exactly the runs in which
  the header was written, and these are the runs that return 0: there the trailer is
  written once, after all the packets, whatever failed in the loop, and the last calls
  are \<^verbatim>\<open>av_write_trailer\<close> and the closing message. The program has one exit after the
  output file has been opened: when \<^verbatim>\<open>avformat_write_header\<close> fails it returns -1
  without writing the trailer. It has no call that removes the output file.
\<close>

theorem trailer_follows_header:
  "header_written (snd (main E)) = (fst (main E) = 0)
   \<and> (Av_write_trailer \<in> set (snd (main E))) = (fst (main E) = 0)
   \<and> (header_written (snd (main E)) \<longrightarrow>
        snd (main E) = butlast (butlast (snd (main E)))
                         @ [Av_write_trailer, Cout (''Processing completed.'' @ endl)]
        \<and> Av_write_trailer \<notin> set (butlast (butlast (snd (main E)))))
   \<and> (output_file_opened (snd (main E)) \<and> fst (main E) \<noteq> 0 \<longrightarrow>
        avformat_write_header E < 0
        \<and> Avformat_write_header (avformat_write_header E) \<in> set (snd (main E))
        \<and> Av_write_trailer \<notin> set (snd (main E))
        \<and> written_packets (snd (main E)) = [])"
proof (cases "open_all E")
  case (Inl cs)
  then show ?thesis
    using open_failed_silent [OF open_all_Inl [OF Inl]] open_all_Inl_file [OF Inl]
    by (auto simp: main_Inl)
next
  case (Inr op)
  then show ?thesis
    using open_calls_silent [of "open_calls op"] open_all_Inr [OF Inr]
      loop_calls_silent [OF loop_calls_loop [of E op]]
    by (simp add: main_Inr butlast_append)
qed

theorem trailer_follows_header_witness:
  "header_written (snd (main failing_env)) \<and> fst (main failing_env) = 0
   \<and> Av_write_trailer \<in> set (snd (main failing_env))
   \<and> output_file_opened (snd (main header_fails_env)) \<and> fst (main header_fails_env) \<noteq> 0
   \<and> avformat_write_header header_fails_env < 0
   \<and> \<not> header_written (snd (main header_fails_env))
   \<and> Av_write_trailer \<notin> set (snd (main header_fails_env))"
  using trailer_follows_header [of failing_env] trailer_follows_header [of header_fails_env]
  by (simp add: failing_env_def header_fails_env_def demo_defs main_defs Let_def)

text \<open>
  Claim C8, as the specification states it, fails. The output file is opened, then
  \<^verbatim>\<open>avformat_write_header\<close> fails. The program writes its message and returns -1: it
  leaves through a fatal exit after the output file has been created, and the trailer
  is not written.
\<close>

theorem header_failure_counterexample:
  "Avio_open ''out.mp3'' 0 \<in> set (snd (main header_fails_env))
   \<and> output_file_opened (snd (main header_fails_env))
   \<and> Avformat_write_header (-5) \<in> set (snd (main header_fails_env))
   \<and> logged (snd (main header_fails_env)) = [''Error occurred when opening output file'' @ endl]
   \<and> fst (main header_fails_env) = -1
   \<and> Av_write_trailer \<notin> set (snd (main header_fails_env))"
  by (simp add: header_fails_env_def demo_defs main_defs Let_def)

subsection \<open>Exit codes\<close>

lemma open_decoder_Inr_cond:
  assumes "open_decoder E n = Inr (asi, cc, ds, cs)"
  shows "avformat_open_input E n = 0 \<and> 0 \<le> avformat_find_stream_info E
         \<and> find_audio_stream (streams E) 0 \<noteq> -1
         \<and> (\<exists>codec. avcodec_find_decoder E (codec_id (audio_stream_parameters E)) = Some codec
               \<and> 0 \<le> fst (avcodec_open2_decoder E
                     (avcodec_parameters_to_context (avcodec_alloc_context3 codec)
                        (audio_stream_parameters E)) codec)
               \<and> cc = fst (snd (avcodec_open2_decoder E
                     (avcodec_parameters_to_context (avcodec_alloc_context3 codec)
                        (audio_stream_parameters E)) codec)))"
  using assms
  by (auto simp: open_decoder_def audio_stream_parameters_def Let_def
      split: if_splits option.splits prod.splits)

lemma open_file_Inr_cond:
  "open_file E n fmt c = Inr (c', cs) \<Longrightarrow> 0 \<le> avformat_write_header E"
  by (auto simp: open_file_def Let_def split: if_splits)

lemma open_output_Inr_cond:
  assumes "open_output E n cc = Inr (oc, es, cs)"
  shows "(\<exists>codec. avcodec_find_encoder E AV_CODEC_ID_MP3 = Some codec
            \<and> 0 \<le> fst (avcodec_open2_encoder E (setup_out_codec_context codec cc) codec))
         \<and> avformat_new_stream E \<and> 0 \<le> avformat_write_header E"
  using assms
  by (auto simp: open_output_def Let_def dest!: open_file_Inr_cond
      split: if_splits option.splits prod.splits sum.splits)

lemma open_all_Inr_cond:
  assumes "open_all E = Inr op"
  shows "3 \<le> length (argv E) \<and> (\<exists>n. avformat_open_input E n = 0)
         \<and> 0 \<le> avformat_find_stream_info E \<and> find_audio_stream (streams E) 0 \<noteq> -1
         \<and> (\<exists>codec. avcodec_find_decoder E (codec_id (audio_stream_parameters E)) = Some codec
               \<and> 0 \<le> fst (avcodec_open2_decoder E
                     (avcodec_parameters_to_context (avcodec_alloc_context3 codec)
                        (audio_stream_parameters E)) codec)
               \<and> o_codec_context op = fst (snd (avcodec_open2_decoder E
                     (avcodec_parameters_to_context (avcodec_alloc_context3 codec)
                        (audio_stream_parameters E)) codec)))
         \<and> (\<exists>codec. avcodec_find_encoder E AV_CODEC_ID_MP3 = Some codec
               \<and> 0 \<le> fst (avcodec_open2_encoder E
                     (setup_out_codec_context codec (o_codec_context op)) codec))
         \<and> avformat_new_stream E \<and> 0 \<le> avformat_write_header E"
proof -
  obtain prog inp outp r3 where a: "argv E = prog # inp # outp # r3"
    using assms by (auto simp: open_all_def split: list.splits)
  obtain asi ctx ds c_dec where od: "open_decoder E inp = Inr (asi, ctx, ds, c_dec)"
    using assms a by (auto simp: open_all_def split: sum.splits prod.splits)
  obtain ps c_spx where ip: "init_preprocess E ctx = (ps, c_spx)"
    by (cases "init_preprocess E ctx") auto
  obtain octx es c_out where oo: "open_output E outp ctx = Inr (octx, es, c_out)"
    using assms a od ip by (auto simp: open_all_def split: sum.splits prod.splits)
  have c: "o_codec_context op = ctx"
    using assms a od ip oo by (auto simp: open_all_def)
  show ?thesis
    using a c open_decoder_Inr_cond [OF od] open_output_Inr_cond [OF oo] by auto
qed

lemma open_decoder_loop_fields:
  "open_decoder (E\<lparr>packets := x, avcodec_send_packet := a, avcodec_receive_frame := b,
       speex_preprocess_run := c, avcodec_send_frame := d, avcodec_receive_packet := e\<rparr>) n
     = open_decoder E n"
  by (simp add: open_decoder_def Let_def split_beta cong: option.case_cong sum.case_cong if_cong)

lemma init_preprocess_loop_fields:
  "init_preprocess (E\<lparr>packets := x, avcodec_send_packet := a, avcodec_receive_frame := b,
       speex_preprocess_run := c, avcodec_send_frame := d, avcodec_receive_packet := e\<rparr>) k
     = init_preprocess E k"
  by (simp add: init_preprocess_def Let_def)

lemma open_file_loop_fields:
  "open_file (E\<lparr>packets := x, avcodec_send_packet := a, avcodec_receive_frame := b,
       speex_preprocess_run := c, avcodec_send_frame := d, avcodec_receive_packet := e\<rparr>) n f k
     = open_file E n f k"
  by (simp add: open_file_def Let_def)

lemma open_output_loop_fields:
  "open_output (E\<lparr>packets := x, avcodec_send_packet := a, avcodec_receive_frame := b,
       speex_preprocess_run := c, avcodec_send_frame := d, avcodec_receive_packet := e\<rparr>) n k
     = open_output E n k"
  by (simp add: open_output_def open_file_loop_fields Let_def split_beta
      cong: option.case_cong sum.case_cong if_cong)

lemma open_all_loop_fields:
  "open_all (E\<lparr>packets := x, avcodec_send_packet := a, avcodec_receive_frame := b,
       speex_preprocess_run := c, avcodec_send_frame := d, avcodec_receive_packet := e\<rparr>)
     = open_all E"
  by (simp add: open_all_def open_decoder_loop_fields init_preprocess_loop_fields
      open_output_loop_fields Let_def split_beta cong: list.case_cong sum.case_cong)

lemma main_exit_code: "fst (main E) = (case open_all E of Inl cs \<Rightarrow> -1 | Inr op \<Rightarrow> 0)"
  by (simp add: main_def split_beta split: sum.splits)

lemma open_decoder_ok_iff:
  "(\<exists>r. open_decoder E n = Inr r) =
     (avformat_open_input E n = 0 \<and> 0 \<le> avformat_find_stream_info E
      \<and> find_audio_stream (streams E) 0 \<noteq> -1
      \<and> (case decoder_open E of None \<Rightarrow> False | Some (rc, cc, ds) \<Rightarrow> 0 \<le> rc))"
  by (auto simp: open_decoder_def decoder_open_def audio_stream_parameters_def Let_def
      split: if_splits option.splits prod.splits)

lemma open_decoder_Inr_context:
  "open_decoder E n = Inr (asi, cc, ds, cs) \<Longrightarrow> \<exists>rc. decoder_open E = Some (rc, cc, ds)"
  by (auto simp: open_decoder_def decoder_open_def audio_stream_parameters_def Let_def
      split: if_splits option.splits prod.splits)

lemma open_file_ok_iff:
  "(\<exists>r. open_file E n fmt c = Inr r) =
     ((AVFMT_NOFILE \<in> oformat_flags fmt \<or> 0 \<le> avio_open E n) \<and> 0 \<le> avformat_write_header E)"
  by (auto simp: open_file_def Let_def split: if_splits)

lemma open_output_ok_iff:
  "(\<exists>r. open_output E n cc = Inr r) =
     ((case avformat_alloc_output_context2 E ''mp3'' n of
         None \<Rightarrow> False
       | Some fmt \<Rightarrow> AVFMT_NOFILE \<in> oformat_flags fmt \<or> 0 \<le> avio_open E n)
      \<and> avformat_new_stream E
      \<and> (case avcodec_find_encoder E AV_CODEC_ID_MP3 of
            None \<Rightarrow> False
          | Some oc \<Rightarrow> 0 \<le> fst (avcodec_open2_encoder E (setup_out_codec_context oc cc) oc))
      \<and> 0 \<le> avformat_write_header E)"
proof -
  have f: "\<not> ((AVFMT_NOFILE \<in> oformat_flags fmt \<or> 0 \<le> avio_open E n)
               \<and> 0 \<le> avformat_write_header E)"
    if "open_file E n fmt c = Inl x" for fmt c x
    using open_file_ok_iff [of E n fmt c] that by auto
  have g: "(AVFMT_NOFILE \<in> oformat_flags fmt \<or> 0 \<le> avio_open E n)
             \<and> 0 \<le> avformat_write_header E"
    if "open_file E n fmt c = Inr x" for fmt c x
    using open_file_ok_iff [of E n fmt c] that by auto
  show ?thesis
    by (auto simp: open_output_def Let_def dest: f g
        split: if_splits option.splits prod.splits sum.splits)
qed

lemma open_all_ok_iff: "(\<exists>op. open_all E = Inr op) = all_opening_calls_succeed E"
proof (cases "\<exists>prog inp outp r3. argv E = prog # inp # outp # r3")
  case False
  then have "length (argv E) < 3"
  proof (cases "argv E")
    case Nil
    then show ?thesis by simp
  next
    case c1: (Cons a l1)
    show ?thesis
    proof (cases l1)
      case Nil
      then show ?thesis using c1 by simp
    next
      case c2: (Cons b l2)
      show ?thesis
      proof (cases l2)
        case Nil
        then show ?thesis using c1 c2 by simp
      next
        case (Cons c l3)
        then show ?thesis using False c1 c2 by simp
      qed
    qed
  qed
  moreover have "\<forall>op. open_all E \<noteq> Inr op"
    using False by (auto simp: open_all_def split: list.splits)
  ultimately show ?thesis
    by (simp add: all_opening_calls_succeed_def)
next
  case True
  then obtain prog inp outp r3 where a: "argv E = prog # inp # outp # r3"
    by blast
  have n: "input_filename E = inp" "output_filename E = outp" "3 \<le> length (argv E)"
    using a by (simp_all add: input_filename_def output_filename_def)
  show ?thesis
  proof (cases "open_decoder E inp")
    case (Inl cs)
    then have "\<not> (\<exists>r. open_decoder E inp = Inr r)"
      by simp
    then show ?thesis
      using a n Inl open_decoder_ok_iff [of E inp]
      by (auto simp: open_all_def all_opening_calls_succeed_def)
  next
    case (Inr r)
    obtain asi cc ds c_dec where r: "r = (asi, cc, ds, c_dec)"
      by (cases r) auto
    obtain rc where d: "decoder_open E = Some (rc, cc, ds)"
      using open_decoder_Inr_context [of E inp asi cc ds c_dec] Inr r by auto
    have dec: "avformat_open_input E inp = 0 \<and> 0 \<le> avformat_find_stream_info E
      \<and> find_audio_stream (streams E) 0 \<noteq> -1 \<and> 0 \<le> rc"
    proof -
      have "\<exists>r. open_decoder E inp = Inr r"
        using Inr by blast
      then show ?thesis
        unfolding open_decoder_ok_iff using d by simp
    qed
    have e: "(case encoder_open E of None \<Rightarrow> False | Some (rc, opened_ctx, es) \<Rightarrow> 0 \<le> rc)
      = (case avcodec_find_encoder E AV_CODEC_ID_MP3 of
            None \<Rightarrow> False
          | Some oc \<Rightarrow> 0 \<le> fst (avcodec_open2_encoder E (setup_out_codec_context oc cc) oc))"
      using d by (auto simp: encoder_open_def split: option.splits prod.splits)
    have "(\<exists>op. open_all E = Inr op) = (\<exists>r. open_output E outp cc = Inr r)"
      using a Inr r
      by (auto simp: open_all_def Let_def split: sum.splits prod.splits)
    then show ?thesis
      using open_output_ok_iff [of E outp cc] n d dec e
      by (simp add: all_opening_calls_succeed_def cong: option.case_cong)
  qed
qed

lemma main_exit_zero_iff: "(fst (main E) = 0) = all_opening_calls_succeed E"
  using open_all_ok_iff [of E]
  by (cases "open_all E") (auto simp: main_exit_code)

text \<open>
  Claim C5, as the program has it. The program returns 0 or -1. It returns 0 exactly
  when every call of the opening phase succeeds, and -1 exactly when the run ends with
  a message on \<^verbatim>\<open>std::cerr\<close> during the opening phase; then no header, no packet and
  no trailer has been written. Each failure of the opening phase gives -1, taken with
  the arguments the program passes: fewer than three arguments, the input file cannot
  be opened, no stream information, no audio stream, no decoder for the audio stream,
  the decoder cannot be opened, no output context, no MP3 encoder, no output stream,
  the encoder cannot be opened, the output file cannot be opened, the header cannot be
  written. The program has no check of sample format or channel layout: the exit code
  does not depend on the packets, on what the decoder delivers for them, or on what
  the preprocessor and the encoder do in the loop.
\<close>

theorem exit_codes:
  "(fst (main E) = 0 \<or> fst (main E) = -1)
   \<and> (fst (main E) = 0) = all_opening_calls_succeed E
   \<and> (fst (main E) = -1) = open_failed (snd (main E))
   \<and> (fst (main E) = -1 \<longrightarrow>
        \<not> header_written (snd (main E)) \<and> written_packets (snd (main E)) = []
        \<and> Av_write_trailer \<notin> set (snd (main E)) \<and> logged (snd (main E)) \<noteq> [])
   \<and> (length (argv E) < 3 \<longrightarrow> fst (main E) = -1)
   \<and> (avformat_open_input E (input_filename E) \<noteq> 0 \<longrightarrow> fst (main E) = -1)
   \<and> (avformat_find_stream_info E < 0 \<longrightarrow> fst (main E) = -1)
   \<and> (find_audio_stream (streams E) 0 = -1 \<longrightarrow> fst (main E) = -1)
   \<and> (avcodec_find_decoder E (codec_id (audio_stream_parameters E)) = None
        \<longrightarrow> fst (main E) = -1)
   \<and> (decoder_open E = Some (rc_dec, codec_context, ds) \<and> rc_dec < 0 \<longrightarrow> fst (main E) = -1)
   \<and> (avformat_alloc_output_context2 E ''mp3'' (output_filename E) = None
        \<longrightarrow> fst (main E) = -1)
   \<and> (avcodec_find_encoder E AV_CODEC_ID_MP3 = None \<longrightarrow> fst (main E) = -1)
   \<and> (\<not> avformat_new_stream E \<longrightarrow> fst (main E) = -1)
   \<and> (encoder_open E = Some (rc_enc, opened_ctx, es) \<and> rc_enc < 0 \<longrightarrow> fst (main E) = -1)
   \<and> (avformat_alloc_output_context2 E ''mp3'' (output_filename E) = Some oformat
        \<and> AVFMT_NOFILE \<notin> oformat_flags oformat \<and> avio_open E (output_filename E) < 0
        \<longrightarrow> fst (main E) = -1)
   \<and> (avformat_write_header E < 0 \<longrightarrow> fst (main E) = -1)
   \<and> fst (main (E\<lparr>packets := x, avcodec_send_packet := a, avcodec_receive_frame := b,
             speex_preprocess_run := c, avcodec_send_frame := d, avcodec_receive_packet := e\<rparr>))
       = fst (main E)"
proof -
  have v: "fst (main E) = 0 \<or> fst (main E) = -1"
    by (cases "open_all E") (simp_all add: main_exit_code)
  have z: "(fst (main E) = 0) = all_opening_calls_succeed E"
    by (rule main_exit_zero_iff)
  have m: "fst (main E) = -1" if "\<not> all_opening_calls_succeed E"
    using v z that by blast
  have f: "(fst (main E) = -1) = open_failed (snd (main E))
           \<and> (fst (main E) = -1 \<longrightarrow>
                \<not> header_written (snd (main E)) \<and> written_packets (snd (main E)) = []
                \<and> Av_write_trailer \<notin> set (snd (main E)) \<and> logged (snd (main E)) \<noteq> [])"
  proof (cases "open_all E")
    case (Inl cs)
    then show ?thesis
      using open_failed_silent [OF open_all_Inl [OF Inl]] open_all_Inl [OF Inl]
      by (simp add: main_Inl)
  next
    case (Inr op)
    then show ?thesis
      by (simp add: main_Inr open_failed_def)
  qed
  have i: "fst (main (E\<lparr>packets := x, avcodec_send_packet := a, avcodec_receive_frame := b,
             speex_preprocess_run := c, avcodec_send_frame := d, avcodec_receive_packet := e\<rparr>))
       = fst (main E)"
    by (simp add: main_exit_code open_all_loop_fields)
  have c1: "length (argv E) < 3 \<longrightarrow> fst (main E) = -1"
    using m by (auto simp: all_opening_calls_succeed_def)
  have c2: "avformat_open_input E (input_filename E) \<noteq> 0 \<longrightarrow> fst (main E) = -1"
    using m by (auto simp: all_opening_calls_succeed_def)
  have c3: "avformat_find_stream_info E < 0 \<longrightarrow> fst (main E) = -1"
    using m by (auto simp: all_opening_calls_succeed_def)
  have c4: "find_audio_stream (streams E) 0 = -1 \<longrightarrow> fst (main E) = -1"
    using m by (auto simp: all_opening_calls_succeed_def)
  have c5: "avcodec_find_decoder E (codec_id (audio_stream_parameters E)) = None
              \<longrightarrow> fst (main E) = -1"
    using m by (auto simp: all_opening_calls_succeed_def decoder_open_def)
  have c6: "decoder_open E = Some (rc_dec, codec_context, ds) \<and> rc_dec < 0 \<longrightarrow> fst (main E) = -1"
    using m by (auto simp: all_opening_calls_succeed_def)
  have c7: "avformat_alloc_output_context2 E ''mp3'' (output_filename E) = None
              \<longrightarrow> fst (main E) = -1"
    using m by (auto simp: all_opening_calls_succeed_def)
  have c8: "avcodec_find_encoder E AV_CODEC_ID_MP3 = None \<longrightarrow> fst (main E) = -1"
    using m by (auto simp: all_opening_calls_succeed_def encoder_open_def split: option.splits)
  have c9: "\<not> avformat_new_stream E \<longrightarrow> fst (main E) = -1"
    using m by (auto simp: all_opening_calls_succeed_def)
  have c10: "encoder_open E = Some (rc_enc, opened_ctx, es) \<and> rc_enc < 0 \<longrightarrow> fst (main E) = -1"
    using m by (auto simp: all_opening_calls_succeed_def)
  have c11: "avformat_alloc_output_context2 E ''mp3'' (output_filename E) = Some oformat
        \<and> AVFMT_NOFILE \<notin> oformat_flags oformat \<and> avio_open E (output_filename E) < 0
        \<longrightarrow> fst (main E) = -1"
    using m by (auto simp: all_opening_calls_succeed_def)
  have c12: "avformat_write_header E < 0 \<longrightarrow> fst (main E) = -1"
    using m by (auto simp: all_opening_calls_succeed_def)
  show ?thesis
    using v z f i c1 c2 c3 c4 c5 c6 c7 c8 c9 c10 c11 c12 by blast
qed

lemmas fault_defs = good_env_def demo_defs main_defs Let_def input_filename_def
  output_filename_def audio_stream_parameters_def decoder_open_def encoder_open_def
  all_opening_calls_succeed_def

theorem exit_codes_witness:
  "all_opening_calls_succeed good_env \<and> fst (main good_env) = 0
   \<and> logged (snd (main good_env)) = []
   \<and> length (argv (fails_at Arguments)) < 3
   \<and> fst (main (fails_at Arguments)) = -1
   \<and> avformat_open_input (fails_at Open_input) (input_filename (fails_at Open_input)) \<noteq> 0
   \<and> fst (main (fails_at Open_input)) = -1
   \<and> logged (snd (main (fails_at Open_input))) = [''Could not open input file in.wav'' @ endl]
   \<and> avformat_find_stream_info (fails_at Stream_info) < 0
   \<and> fst (main (fails_at Stream_info)) = -1
   \<and> logged (snd (main (fails_at Stream_info)))
       = [''Failed to retrieve input stream information'' @ endl]
   \<and> find_audio_stream (streams (fails_at Audio_stream)) 0 = -1
   \<and> fst (main (fails_at Audio_stream)) = -1
   \<and> logged (snd (main (fails_at Audio_stream))) = [''Could not find audio stream'' @ endl]
   \<and> avcodec_find_decoder (fails_at Find_decoder)
         (codec_id (audio_stream_parameters (fails_at Find_decoder))) = None
   \<and> fst (main (fails_at Find_decoder)) = -1
   \<and> logged (snd (main (fails_at Find_decoder))) = [''Codec not found'' @ endl]
   \<and> map_option fst (decoder_open (fails_at Open_decoder)) = Some (-22)
   \<and> fst (main (fails_at Open_decoder)) = -1
   \<and> logged (snd (main (fails_at Open_decoder))) = [''Could not open codec'' @ endl]
   \<and> avformat_alloc_output_context2 (fails_at Output_context) ''mp3''
         (output_filename (fails_at Output_context)) = None
   \<and> fst (main (fails_at Output_context)) = -1
   \<and> logged (snd (main (fails_at Output_context))) = [''Could not create output context'' @ endl]
   \<and> avcodec_find_encoder (fails_at Find_encoder) AV_CODEC_ID_MP3 = None
   \<and> fst (main (fails_at Find_encoder)) = -1
   \<and> logged (snd (main (fails_at Find_encoder))) = [''MP3 encoder not found'' @ endl]
   \<and> \<not> avformat_new_stream (fails_at New_stream)
   \<and> fst (main (fails_at New_stream)) = -1
   \<and> logged (snd (main (fails_at New_stream)))
       = [''Failed to create a new stream for output'' @ endl]
   \<and> map_option fst (encoder_open (fails_at Open_encoder)) = Some (-22)
   \<and> fst (main (fails_at Open_encoder)) = -1
   \<and> logged (snd (main (fails_at Open_encoder))) = [''Could not open the encoder'' @ endl]
   \<and> avio_open (fails_at Open_file) (output_filename (fails_at Open_file)) < 0
   \<and> fst (main (fails_at Open_file)) = -1
   \<and> logged (snd (main (fails_at Open_file))) = [''Could not open output file out.mp3'' @ endl]
   \<and> avformat_write_header (fails_at Write_header) < 0
   \<and> fst (main (fails_at Write_header)) = -1
   \<and> logged (snd (main (fails_at Write_header)))
       = [''Error occurred when opening output file'' @ endl]"
proof -
  have g: "all_opening_calls_succeed good_env \<and> fst (main good_env) = 0
           \<and> logged (snd (main good_env)) = []"
    using exit_codes [of good_env] by (simp add: fault_defs)
  have s1: "length (argv (fails_at Arguments)) < 3 \<and> fst (main (fails_at Arguments)) = -1"
    using exit_codes [of "fails_at Arguments"] by (simp add: fault_defs)
  have s2: "avformat_open_input (fails_at Open_input) (input_filename (fails_at Open_input)) \<noteq> 0
     \<and> fst (main (fails_at Open_input)) = -1
     \<and> logged (snd (main (fails_at Open_input))) = [''Could not open input file in.wav'' @ endl]"
    using exit_codes [of "fails_at Open_input"] by (simp add: fault_defs)
  have s3: "avformat_find_stream_info (fails_at Stream_info) < 0
     \<and> fst (main (fails_at Stream_info)) = -1
     \<and> logged (snd (main (fails_at Stream_info)))
         = [''Failed to retrieve input stream information'' @ endl]"
    using exit_codes [of "fails_at Stream_info"] by (simp add: fault_defs)
  have s4: "find_audio_stream (streams (fails_at Audio_stream)) 0 = -1
     \<and> fst (main (fails_at Audio_stream)) = -1
     \<and> logged (snd (main (fails_at Audio_stream))) = [''Could not find audio stream'' @ endl]"
    using exit_codes [of "fails_at Audio_stream"] by (simp add: fault_defs)
  have s5: "avcodec_find_decoder (fails_at Find_decoder)
         (codec_id (audio_stream_parameters (fails_at Find_decoder))) = None
     \<and> fst (main (fails_at Find_decoder)) = -1
     \<and> logged (snd (main (fails_at Find_decoder))) = [''Codec not found'' @ endl]"
    using exit_codes [of "fails_at Find_decoder"] by (simp add: fault_defs)
  have s6: "map_option fst (decoder_open (fails_at Open_decoder)) = Some (-22)
     \<and> fst (main (fails_at Open_decoder)) = -1
     \<and> logged (snd (main (fails_at Open_decoder))) = [''Could not open codec'' @ endl]"
    using exit_codes [of "fails_at Open_decoder"] by (simp add: fault_defs)
  have s7: "avformat_alloc_output_context2 (fails_at Output_context) ''mp3''
         (output_filename (fails_at Output_context)) = None
     \<and> fst (main (fails_at Output_context)) = -1
     \<and> logged (snd (main (fails_at Output_context)))
         = [''Could not create output context'' @ endl]"
    using exit_codes [of "fails_at Output_context"] by (simp add: fault_defs)
  have s8: "avcodec_find_encoder (fails_at Find_encoder) AV_CODEC_ID_MP3 = None
     \<and> fst (main (fails_at Find_encoder)) = -1
     \<and> logged (snd (main (fails_at Find_encoder))) = [''MP3 encoder not found'' @ endl]"
    using exit_codes [of "fails_at Find_encoder"] by (simp add: fault_defs)
  have s9: "\<not> avformat_new_stream (fails_at New_stream)
     \<and> fst (main (fails_at New_stream)) = -1
     \<and> logged (snd (main (fails_at New_stream)))
         = [''Failed to create a new stream for output'' @ endl]"
    using exit_codes [of "fails_at New_stream"] by (simp add: fault_defs)
  have s10: "map_option fst (encoder_open (fails_at Open_encoder)) = Some (-22)
     \<and> fst (main (fails_at Open_encoder)) = -1
     \<and> logged (snd (main (fails_at Open_encoder))) = [''Could not open the encoder'' @ endl]"
    using exit_codes [of "fails_at Open_encoder"] by (simp add: fault_defs)
  have s11: "avio_open (fails_at Open_file) (output_filename (fails_at Open_file)) < 0
     \<and> fst (main (fails_at Open_file)) = -1
     \<and> logged (snd (main (fails_at Open_file)))
         = [''Could not open output file out.mp3'' @ endl]"
    using exit_codes [of "fails_at Open_file"] by (simp add: fault_defs)
  have s12: "avformat_write_header (fails_at Write_header) < 0
     \<and> fst (main (fails_at Write_header)) = -1
     \<and> logged (snd (main (fails_at Write_header)))
         = [''Error occurred when opening output file'' @ endl]"
    using exit_codes [of "fails_at Write_header"] by (simp add: fault_defs)
  show ?thesis
    using g s1 s2 s3 s4 s5 s6 s7 s8 s9 s10 s11 s12 by blast
qed

text \<open>
  Claim C5, as the specification states it, fails. The decoder delivers a frame of six
  channels with 64-bit integer samples: a channel layout and a sample format that the
  specification's Format Adapter does not support for a stereo output. The program
  hands the frame to the preprocessor and returns 0.
\<close>

theorem unsupported_input_counterexample:
  "map frame_channels (denoise_calls (snd (main six_channel_env))) = [6]
   \<and> map format (denoise_calls (snd (main six_channel_env))) = [AV_SAMPLE_FMT_S64]
   \<and> \<not> spec_supported_channels 6 2
   \<and> \<not> spec_supported_format AV_SAMPLE_FMT_S64
   \<and> fst (main six_channel_env) = 0"
  by (simp add: six_channel_env_def demo_defs main_defs Let_def spec_supported_channels_def)

subsection \<open>The configuration of the encoder\<close>

lemma open_decoder_no_encoder:
  "Avcodec_open2_encoder k rc \<notin> set (case open_decoder E n of Inl cs \<Rightarrow> cs | Inr (asi, cc, ds, cs) \<Rightarrow> cs)"
  by (auto simp: open_decoder_def Let_def split: if_splits option.splits prod.splits)

lemma open_file_no_encoder:
  "Avcodec_open2_encoder k rc \<notin> set (case open_file E n f c of Inl cs \<Rightarrow> cs | Inr (c', cs) \<Rightarrow> cs)"
  by (auto simp: open_file_def Let_def split: if_splits)

lemma open_output_encoder:
  assumes "Avcodec_open2_encoder k rc
             \<in> set (case open_output E n cc of Inl cs \<Rightarrow> cs | Inr (oc, es, cs) \<Rightarrow> cs)"
  shows "\<exists>codec. avcodec_find_encoder E AV_CODEC_ID_MP3 = Some codec
           \<and> k = setup_out_codec_context codec cc"
proof -
  have "Avcodec_open2_encoder k rc \<notin> set cs" if "open_file E n f c = Inl cs" for f c cs
    using open_file_no_encoder [of k rc E n f c] that by simp
  moreover have "Avcodec_open2_encoder k rc \<notin> set cs"
    if "open_file E n f c = Inr (c', cs)" for f c c' cs
    using open_file_no_encoder [of k rc E n f c] that by simp
  ultimately show ?thesis
    using assms
    by (auto simp: open_output_def Let_def split: if_splits option.splits prod.splits sum.splits)
qed

lemma main_encoder_call:
  assumes "Avcodec_open2_encoder k rc \<in> set (snd (main E))"
  shows "\<exists>cc codec. input_codec_context E = Some cc
           \<and> avcodec_find_encoder E AV_CODEC_ID_MP3 = Some codec
           \<and> k = setup_out_codec_context codec cc"
proof -
  have l: "Avcodec_open2_encoder k rc \<notin> set (loop_calls E op)" for op
    using loop_calls_loop [of E op] by (auto simp: list_all_iff)
  have o: "Avcodec_open2_encoder k rc
             \<in> set (case open_all E of Inl cs \<Rightarrow> cs | Inr op \<Rightarrow> open_calls op)"
    using assms l by (cases "open_all E") (auto simp: main_Inl main_Inr)
  then obtain prog inp outp r3 where a: "argv E = prog # inp # outp # r3"
    by (auto simp: open_all_def split: list.splits)
  show ?thesis
  proof (cases "open_decoder E inp")
    case (Inl cs)
    then show ?thesis
      using o a open_decoder_no_encoder [of k rc E inp] by (simp add: open_all_def)
  next
    case (Inr r)
    obtain asi cc ds c_dec where r: "r = (asi, cc, ds, c_dec)"
      by (cases r) auto
    have d: "Avcodec_open2_encoder k rc \<notin> set c_dec"
      using open_decoder_no_encoder [of k rc E inp] Inr r by simp
    have "Avcodec_open2_encoder k rc
             \<in> set (case open_output E outp cc of Inl cs \<Rightarrow> cs | Inr (oc, es, cs) \<Rightarrow> cs)"
      using o a Inr r d
      by (auto simp: open_all_def init_preprocess_def Let_def split: sum.splits prod.splits)
    then show ?thesis
      using open_output_encoder [of k rc E outp cc] a Inr r
      by (simp add: input_codec_context_def)
  qed
qed

text \<open>
  Claim C10. Whenever the program opens the output encoder, the context it hands to
  \<^verbatim>\<open>avcodec_open2\<close> has the stereo channel layout with two channels, the bit rate
  192000 and the sample rate of the input stream's decoder context, whatever the
  channel layout and the bit rate of the input are; its codec is the one that
  \<^verbatim>\<open>avcodec_find_encoder\<close> returns for \<open>AV_CODEC_ID_MP3\<close>. Where the library returns
  an encoder with the identifier it was asked for, the codec is MP3; where
  \<^verbatim>\<open>avcodec_open2\<close> leaves the decoder's sample rate as
  \<^verbatim>\<open>avcodec_parameters_to_context\<close> copied it from the stream, the sample rate is that
  of the stream's parameters.
\<close>

theorem encoder_configuration:
  assumes "Avcodec_open2_encoder k rc \<in> set (snd (main E))"
  shows "channel_layout k = AV_CH_LAYOUT_STEREO \<and> channels k = 2 \<and> bit_rate k = 192000
         \<and> map_option avcodec_id (avcodec_find_encoder E AV_CODEC_ID_MP3) = Some (ctx_codec_id k)
         \<and> map_option sample_rate (input_codec_context E) = Some (sample_rate k)
         \<and> ((\<forall>codec. avcodec_find_encoder E AV_CODEC_ID_MP3 = Some codec
                \<longrightarrow> avcodec_id codec = AV_CODEC_ID_MP3)
              \<longrightarrow> ctx_codec_id k = AV_CODEC_ID_MP3)
         \<and> ((\<forall>ctx codec. sample_rate (fst (snd (avcodec_open2_decoder E ctx codec)))
                = sample_rate ctx)
              \<longrightarrow> sample_rate k = par_sample_rate (audio_stream_parameters E))"
proof -
  obtain cc codec where c: "input_codec_context E = Some cc"
      "avcodec_find_encoder E AV_CODEC_ID_MP3 = Some codec"
      "k = setup_out_codec_context codec cc"
    using main_encoder_call [OF assms] by blast
  obtain inp asi ds c_dec where
    od: "open_decoder E inp = Inr (asi, cc, ds, c_dec)"
    using c(1)
    by (auto simp: input_codec_context_def split: list.splits sum.splits)
  obtain dcodec where cc: "cc = fst (snd (avcodec_open2_decoder E
                     (avcodec_parameters_to_context (avcodec_alloc_context3 dcodec)
                        (audio_stream_parameters E)) dcodec))"
    using open_decoder_Inr_cond [OF od] by blast
  have s: "sample_rate (avcodec_parameters_to_context (avcodec_alloc_context3 dcodec)
                        (audio_stream_parameters E)) = par_sample_rate (audio_stream_parameters E)"
    by (simp add: avcodec_parameters_to_context_def)
  have k: "channel_layout k = AV_CH_LAYOUT_STEREO \<and> channels k = 2 \<and> bit_rate k = 192000
           \<and> ctx_codec_id k = avcodec_id codec \<and> sample_rate k = sample_rate cc"
    using c(3)
    by (simp add: setup_out_codec_context_def avcodec_alloc_context3_def Let_def
        av_get_channel_layout_nb_channels_def AV_CH_LAYOUT_STEREO_def)
  show ?thesis
    using k c(1,2) cc s by auto
qed

theorem encoder_configuration_witness:
  "Avcodec_open2_encoder
     \<lparr>ctx_codec_id = AV_CODEC_ID_MP3, sample_rate = 8000, channel_layout = AV_CH_LAYOUT_STEREO,
      channels = 2, sample_fmt = AV_SAMPLE_FMT_S16P, bit_rate = 192000, frame_size = 0,
      flags = {}\<rparr> 0 \<in> set (snd (main six_channel_env))
   \<and> map_option avcodec_id (avcodec_find_encoder six_channel_env AV_CODEC_ID_MP3)
       = Some AV_CODEC_ID_MP3
   \<and> (\<forall>ctx codec. sample_rate (fst (snd (avcodec_open2_decoder six_channel_env ctx codec)))
         = sample_rate ctx)
   \<and> par_channels (audio_stream_parameters six_channel_env) = 6
   \<and> par_bit_rate (audio_stream_parameters six_channel_env) = 128000
   \<and> par_sample_rate (audio_stream_parameters six_channel_env) = 8000
   \<and> map_option sample_rate (input_codec_context six_channel_env) = Some 8000"
  using encoder_configuration [of
      "\<lparr>ctx_codec_id = AV_CODEC_ID_MP3, sample_rate = 8000, channel_layout = AV_CH_LAYOUT_STEREO,
        channels = 2, sample_fmt = AV_SAMPLE_FMT_S16P, bit_rate = 192000, frame_size = 0,
        flags = {}\<rparr>" 0 six_channel_env]
  by (simp add: six_channel_env_def demo_defs main_defs Let_def audio_stream_parameters_def)

end
